theory Spec2Isabelle
  imports Complex_Main
begin

section \<open>Floating-point values with the IEEE special values\<close>

text \<open>
  The engine computes on NumPy arrays of doubles, where a division by zero does not raise:
  it yields an infinity or NaN in that array slot, with a warning that the module silences
  (\<^verbatim>\<open>warnings.filterwarnings('ignore')\<close>).  A value is therefore either a finite number
  or one of the three special values.  Finite arithmetic is exact (rounding and overflow to
  infinity are not modelled) and there is a single zero, which behaves as \<open>+0.0\<close>.
\<close>

datatype npfloat = Fin real | PInf | NInf | NaN

fun is_finite :: "npfloat \<Rightarrow> bool" where
  "is_finite (Fin x) = True"
| "is_finite _ = False"

fun is_nan :: "npfloat \<Rightarrow> bool" where
  "is_nan NaN = True"
| "is_nan _ = False"

fun fneg :: "npfloat \<Rightarrow> npfloat" where
  "fneg (Fin x) = Fin (- x)"
| "fneg PInf = NInf"
| "fneg NInf = PInf"
| "fneg NaN = NaN"

fun fadd :: "npfloat \<Rightarrow> npfloat \<Rightarrow> npfloat" where
  "fadd (Fin x) (Fin y) = Fin (x + y)"
| "fadd NaN _ = NaN"
| "fadd _ NaN = NaN"
| "fadd PInf NInf = NaN"
| "fadd NInf PInf = NaN"
| "fadd PInf _ = PInf"
| "fadd NInf _ = NInf"
| "fadd _ PInf = PInf"
| "fadd _ NInf = NInf"

definition fsub :: "npfloat \<Rightarrow> npfloat \<Rightarrow> npfloat" where
  "fsub a b = fadd a (fneg b)"

text \<open>The sign of a value that is not NaN: \<open>-1\<close>, \<open>0\<close> or \<open>1\<close>.\<close>

fun fsign :: "npfloat \<Rightarrow> int" where
  "fsign (Fin x) = (if x < 0 then - 1 else if x = 0 then 0 else 1)"
| "fsign PInf = 1"
| "fsign NInf = - 1"
| "fsign NaN = 0"

definition inf_of_sign :: "int \<Rightarrow> npfloat" where
  "inf_of_sign s = (if s = 0 then NaN else if s < 0 then NInf else PInf)"

fun fmul :: "npfloat \<Rightarrow> npfloat \<Rightarrow> npfloat" where
  "fmul (Fin x) (Fin y) = Fin (x * y)"
| "fmul NaN _ = NaN"
| "fmul _ NaN = NaN"
| "fmul a b = inf_of_sign (fsign a * fsign b)"

fun fdiv :: "npfloat \<Rightarrow> npfloat \<Rightarrow> npfloat" where
  "fdiv NaN _ = NaN"
| "fdiv _ NaN = NaN"
| "fdiv (Fin x) (Fin y) = (if y = 0 then inf_of_sign (fsign (Fin x)) else Fin (x / y))"
| "fdiv (Fin x) _ = Fin 0"
| "fdiv a (Fin y) = inf_of_sign (fsign a * (if y < 0 then - 1 else 1))"
| "fdiv _ _ = NaN"

fun fabs :: "npfloat \<Rightarrow> npfloat" where
  "fabs (Fin x) = Fin \<bar>x\<bar>"
| "fabs NaN = NaN"
| "fabs _ = PInf"

fun fsqrt :: "npfloat \<Rightarrow> npfloat" where
  "fsqrt (Fin x) = (if x < 0 then NaN else Fin (sqrt x))"
| "fsqrt PInf = PInf"
| "fsqrt _ = NaN"

text \<open>IEEE comparison: every comparison with NaN is false.\<close>

fun fle :: "npfloat \<Rightarrow> npfloat \<Rightarrow> bool" where
  "fle NaN _ = False"
| "fle _ NaN = False"
| "fle NInf _ = True"
| "fle _ PInf = True"
| "fle (Fin x) (Fin y) = (x \<le> y)"
| "fle _ _ = False"


definition flt :: "npfloat \<Rightarrow> npfloat \<Rightarrow> bool" where
  "flt a b = (fle a b \<and> a \<noteq> b)"

text \<open>\<^verbatim>\<open>np.maximum\<close>, \<^verbatim>\<open>np.minimum\<close> and \<^verbatim>\<open>np.clip\<close> propagate NaN.\<close>

definition fmaximum :: "npfloat \<Rightarrow> npfloat \<Rightarrow> npfloat" where
  "fmaximum a b = (if is_nan a \<or> is_nan b then NaN else if fle a b then b else a)"

definition fminimum :: "npfloat \<Rightarrow> npfloat \<Rightarrow> npfloat" where
  "fminimum a b = (if is_nan a \<or> is_nan b then NaN else if fle a b then a else b)"

definition np_clip :: "npfloat \<Rightarrow> real \<Rightarrow> real \<Rightarrow> npfloat" where
  "np_clip x lo hi = fminimum (fmaximum x (Fin lo)) (Fin hi)"



text \<open>Element-wise array arithmetic.  All arrays of one run have the same length
  \<open>n_simulations\<close>, so no broadcasting happens.\<close>

type_synonym population = "npfloat list"

definition vadd :: "population \<Rightarrow> population \<Rightarrow> population" where
  "vadd xs ys = map2 fadd xs ys"

definition vsub :: "population \<Rightarrow> population \<Rightarrow> population" where
  "vsub xs ys = map2 fsub xs ys"

definition vmul :: "population \<Rightarrow> population \<Rightarrow> population" where
  "vmul xs ys = map2 fmul xs ys"

definition vdiv :: "population \<Rightarrow> population \<Rightarrow> population" where
  "vdiv xs ys = map2 fdiv xs ys"

text \<open>Arithmetic of an array with a Python scalar.\<close>

definition smul :: "population \<Rightarrow> real \<Rightarrow> population" where
  "smul xs c = map (\<lambda>x. fmul x (Fin c)) xs"

definition sdiv :: "population \<Rightarrow> real \<Rightarrow> population" where
  "sdiv xs c = map (\<lambda>x. fdiv x (Fin c)) xs"

definition rsub :: "real \<Rightarrow> population \<Rightarrow> population" where
  "rsub c xs = map (\<lambda>x. fsub (Fin c) x) xs"

text \<open>Integer arrays have dtype \<open>int64\<close>: their sum wraps around.  An integer array that
  meets a float array is converted to float first.\<close>

definition wrap64 :: "int \<Rightarrow> int" where
  "wrap64 k = (k + 2 ^ 63) mod 2 ^ 64 - 2 ^ 63"

definition iadd :: "int list \<Rightarrow> int list \<Rightarrow> int list" where
  "iadd xs ys = map2 (\<lambda>a b. wrap64 (a + b)) xs ys"

definition as_float :: "int list \<Rightarrow> population" where
  "as_float ks = map (\<lambda>k. Fin (of_int k)) ks"

section \<open>Parameters and engine state\<close>

record SimulationParameters =
  basic_price :: "real \<times> real"
  pro_price :: "real \<times> real"
  enterprise_price :: "real \<times> real"
  basic_subscribers :: "int \<times> int"
  pro_subscribers :: "int \<times> int"
  enterprise_subscribers :: "int \<times> int"
  api_monthly_base :: "real \<times> real"
  api_per_call_revenue :: "real \<times> real"
  monthly_api_calls :: "int \<times> int"
  projects_per_month :: "int \<times> int"
  project_value :: "real \<times> real"
  annual_licensing_deals :: "int \<times> int"
  licensing_value :: "real \<times> real"
  infrastructure_monthly :: "real \<times> real"
  data_acquisition :: "real \<times> real"
  personnel_allocation :: "real \<times> real"
  marketing_monthly :: "real \<times> real"
  seasonality_factor :: "real \<times> real"
  market_growth_rate :: "real \<times> real"
  churn_rate :: "real \<times> real"
  automation_savings :: "real \<times> real"
  platform_efficiency :: "real \<times> real"
  baseball_impact :: "real \<times> real"
  football_impact :: "real \<times> real"
  basketball_impact :: "real \<times> real"
  track_field_impact :: "real \<times> real"

text \<open>The dataclass defaults.  The dataclass has no \<open>__post_init__\<close>: constructing a
  parameter set checks nothing.\<close>

definition default_parameters :: SimulationParameters where
  "default_parameters = \<lparr>
     basic_price = (29, 49),
     pro_price = (99, 149),
     enterprise_price = (499, 999),
     basic_subscribers = (50, 300),
     pro_subscribers = (20, 100),
     enterprise_subscribers = (5, 25),
     api_monthly_base = (500, 2000),
     api_per_call_revenue = (1 / 1000, 1 / 100),
     monthly_api_calls = (100000, 1000000),
     projects_per_month = (1, 5),
     project_value = (2000, 15000),
     annual_licensing_deals = (2, 8),
     licensing_value = (10000, 50000),
     infrastructure_monthly = (500, 1500),
     data_acquisition = (1000, 3000),
     personnel_allocation = (2000, 5000),
     marketing_monthly = (500, 2000),
     seasonality_factor = (7 / 10, 13 / 10),
     market_growth_rate = (98 / 100, 115 / 100),
     churn_rate = (2 / 100, 8 / 100),
     automation_savings = (1 / 10, 3 / 10),
     platform_efficiency = (1, 15 / 10),
     baseball_impact = (9 / 10, 14 / 10),
     football_impact = (8 / 10, 13 / 10),
     basketball_impact = (7 / 10, 12 / 10),
     track_field_impact = (5 / 10, 9 / 10) \<rparr>"

text \<open>The Trial Table: the columns of the results DataFrame.  The column
  \<open>'automation_savings'\<close> is named \<open>automation_savings_col\<close> here, apart from the
  parameter of the same name.\<close>

record trial_table =
  subscription_revenue :: population
  api_revenue :: population
  project_revenue :: population
  licensing_revenue :: population
  total_costs :: population
  infrastructure_cost :: population
  data_cost :: population
  personnel_cost :: population
  marketing_cost :: population
  gross_revenue :: population
  adjusted_revenue :: population
  gross_profit :: population
  profit_margin :: population
  roi_percent :: population
  monthly_value :: population
  hours_saved :: population
  total_subscribers :: population
  api_calls :: "int list"
  project_count :: "int list"
  automation_savings_col :: population

text \<open>The engine.  The trial count is a natural number: a negative count is rejected by
  the first array allocation and is not modelled.\<close>

record BlazeIntelMonteCarlo =
  params :: SimulationParameters
  n_simulations :: nat
  results :: "trial_table option"

text \<open>A raised exception: its class and its message.  \<open>ValueError\<close> is the only class
  that the engine, and the library calls it makes, raise.\<close>

datatype error = Exception (error_class: string) (error_message: string)

abbreviation ValueError :: "string \<Rightarrow> error" where
  "ValueError msg \<equiv> Exception ''ValueError'' msg"

definition init :: "SimulationParameters \<Rightarrow> nat \<Rightarrow> BlazeIntelMonteCarlo" where
  "init p n = \<lparr> params = p, n_simulations = n, results = None \<rparr>"

section \<open>The random number generator\<close>

text \<open>
  The engine draws from NumPy's process-global generator \<^verbatim>\<open>np.random\<close>, which the module
  seeds once at import (\<^verbatim>\<open>np.random.seed(42)\<close>).  The generator is not part of the
  repository, so its primitive draws are parameters of the model: a double in \<open>[0, 1)\<close>, a
  standard normal deviate, an integer in \<open>{0..rng}\<close>, and the state a seed stands for.  The
  generator state \<open>'g\<close> is threaded through every sampling call in the order of the source.
\<close>

record 'g np_random =
  random_sample :: "'g \<Rightarrow> real \<times> 'g"
  standard_normal :: "'g \<Rightarrow> real \<times> 'g"
  bounded_uint :: "nat \<Rightarrow> 'g \<Rightarrow> nat \<times> 'g"
  seed_state :: "nat \<Rightarrow> 'g"

text \<open>\<^verbatim>\<open>np.random.seed(s)\<close> replaces the global state, whatever it was.\<close>

definition np_random_seed :: "'g np_random \<Rightarrow> nat \<Rightarrow> 'g \<Rightarrow> 'g" where
  "np_random_seed R s g = seed_state R s"

text \<open>What the library guarantees of its primitives.\<close>

definition rng_ok :: "'g np_random \<Rightarrow> bool" where
  "rng_ok R \<longleftrightarrow>
     (\<forall>g. 0 \<le> fst (random_sample R g) \<and> fst (random_sample R g) < 1) \<and>
     (\<forall>r g. fst (bounded_uint R r g) \<le> r)"

text \<open>A computation that may raise and that advances the generator.\<close>

type_synonym ('a, 'g) rnd = "'g \<Rightarrow> (error + 'a) \<times> 'g"

definition returnM :: "'a \<Rightarrow> ('a, 'g) rnd" where
  "returnM x g = (Inr x, g)"

definition bindM :: "('a, 'g) rnd \<Rightarrow> ('a \<Rightarrow> ('b, 'g) rnd) \<Rightarrow> ('b, 'g) rnd" where
  "bindM m f g = (case m g of (Inl e, g') \<Rightarrow> (Inl e, g') | (Inr x, g') \<Rightarrow> f x g')"

text \<open>Filling an array of \<open>n\<close> slots draws \<open>n\<close> times in sequence.\<close>

fun draws :: "('g \<Rightarrow> 'a \<times> 'g) \<Rightarrow> nat \<Rightarrow> 'g \<Rightarrow> 'a list \<times> 'g" where
  "draws f 0 g = ([], g)"
| "draws f (Suc n) g =
     (case f g of (x, g1) \<Rightarrow> (case draws f n g1 of (xs, g2) \<Rightarrow> (x # xs, g2)))"

section \<open>Sampler\<close>

text \<open>\<^verbatim>\<open>np.random.uniform(low, high, n)\<close> is \<open>low + (high - low) * u\<close> for each slot.\<close>

definition sample_uniform ::
  "'g np_random \<Rightarrow> BlazeIntelMonteCarlo \<Rightarrow> real \<times> real \<Rightarrow> (population, 'g) rnd" where
  "sample_uniform R self param_range g =
     (case draws (random_sample R) (n_simulations self) g of (us, g') \<Rightarrow>
        (Inr (map (\<lambda>u. Fin (fst param_range + (snd param_range - fst param_range) * u)) us),
         g'))"

text \<open>\<^verbatim>\<open>np.random.normal(mean, std, n)\<close> raises \<open>ValueError\<close> for a negative scale and is
  \<open>mean + std * z\<close> for each slot otherwise.\<close>

definition sample_normal_bounded ::
  "'g np_random \<Rightarrow> BlazeIntelMonteCarlo \<Rightarrow> real \<times> real \<Rightarrow> real \<Rightarrow> (population, 'g) rnd" where
  "sample_normal_bounded R self param_range skew g =
     (let mean = (fst param_range + snd param_range) / 2;
          std = (snd param_range - fst param_range) / 4
      in if std < 0 then (Inl (ValueError ''scale < 0''), g)
         else case draws (standard_normal R) (n_simulations self) g of (zs, g') \<Rightarrow>
           let samples = map (\<lambda>z. Fin (mean + std * z)) zs;
               samples1 =
                 (if skew \<noteq> 0
                  then map (\<lambda>s. fadd s
                          (fdiv (fmul (Fin skew) (fmul (fsub s (Fin mean)) (fsub s (Fin mean))))
                                (Fin std))) samples
                  else samples);
               samples2 = map (\<lambda>s. np_clip s (fst param_range) (snd param_range)) samples1
           in (Inr samples2, g'))"

text \<open>\<^verbatim>\<open>np.random.randint(low, high + 1, n)\<close> returns the empty array at once when
  \<open>n = 0\<close>; otherwise it checks its bounds against \<open>int64\<close>, raises \<open>ValueError\<close> when
  the interval is empty, and is \<open>low + k\<close> with \<open>k\<close> drawn from \<open>{0..high - low}\<close> for each
  slot.\<close>

definition sample_integer ::
  "'g np_random \<Rightarrow> BlazeIntelMonteCarlo \<Rightarrow> int \<times> int \<Rightarrow> (int list, 'g) rnd" where
  "sample_integer R self param_range g =
     (let low = fst param_range; high = snd param_range
      in if n_simulations self = 0 then (Inr [], g)
         else if low < - (2 ^ 63) then (Inl (ValueError ''low is out of bounds for int64''), g)
         else if high > 2 ^ 63 - 1 then (Inl (ValueError ''high is out of bounds for int64''), g)
         else if low > high then (Inl (ValueError ''low >= high''), g)
         else case draws (bounded_uint R (nat (high - low))) (n_simulations self) g of
                (ks, g') \<Rightarrow> (Inr (map (\<lambda>k. low + int k) ks), g'))"

section \<open>Stream simulators\<close>

text \<open>Each simulator returns a dictionary of arrays; the dictionaries are records here, the
  field for key \<open>'k'\<close> named \<open>k\<close> with a suffix for its dictionary.\<close>

record subscription_dict =
  basic_s :: population
  pro_s :: population
  enterprise_s :: population
  total_subscription_s :: population
  total_subscribers_s :: population

definition simulate_subscription_revenue ::
  "'g np_random \<Rightarrow> BlazeIntelMonteCarlo \<Rightarrow> (subscription_dict, 'g) rnd" where
  "simulate_subscription_revenue R self =
     bindM (sample_integer R self (basic_subscribers (params self))) (\<lambda>basic_subs.
     bindM (sample_integer R self (pro_subscribers (params self))) (\<lambda>pro_subs.
     bindM (sample_integer R self (enterprise_subscribers (params self))) (\<lambda>enterprise_subs.
     bindM (sample_uniform R self (basic_price (params self))) (\<lambda>basic_price'.
     bindM (sample_uniform R self (pro_price (params self))) (\<lambda>pro_price'.
     bindM (sample_uniform R self (enterprise_price (params self))) (\<lambda>enterprise_price'.
     bindM (sample_uniform R self (churn_rate (params self))) (\<lambda>churn.
       let retention = rsub 1 churn;
           basic_revenue = vmul (vmul (as_float basic_subs) basic_price') retention;
           pro_revenue = vmul (vmul (as_float pro_subs) pro_price') retention;
           enterprise_revenue = vmul (vmul (as_float enterprise_subs) enterprise_price') retention
       in returnM \<lparr>
            basic_s = basic_revenue,
            pro_s = pro_revenue,
            enterprise_s = enterprise_revenue,
            total_subscription_s = vadd (vadd basic_revenue pro_revenue) enterprise_revenue,
            total_subscribers_s =
              vmul (as_float (iadd (iadd basic_subs pro_subs) enterprise_subs)) retention
          \<rparr>)))))))"

record api_dict =
  api_base_a :: population
  api_usage_a :: population
  total_api_a :: population
  api_calls_a :: "int list"

definition simulate_api_revenue ::
  "'g np_random \<Rightarrow> BlazeIntelMonteCarlo \<Rightarrow> (api_dict, 'g) rnd" where
  "simulate_api_revenue R self =
     bindM (sample_uniform R self (api_monthly_base (params self))) (\<lambda>base_revenue.
     bindM (sample_uniform R self (api_per_call_revenue (params self))) (\<lambda>per_call_revenue.
     bindM (sample_integer R self (monthly_api_calls (params self))) (\<lambda>monthly_calls.
       let usage_revenue = vmul (as_float monthly_calls) per_call_revenue;
           total_api = vadd base_revenue usage_revenue
       in returnM \<lparr>
            api_base_a = base_revenue,
            api_usage_a = usage_revenue,
            total_api_a = total_api,
            api_calls_a = monthly_calls
          \<rparr>)))"

record project_dict =
  project_count_p :: "int list"
  avg_project_value_p :: population
  total_projects_p :: population

definition simulate_project_revenue ::
  "'g np_random \<Rightarrow> BlazeIntelMonteCarlo \<Rightarrow> (project_dict, 'g) rnd" where
  "simulate_project_revenue R self =
     bindM (sample_integer R self (projects_per_month (params self))) (\<lambda>num_projects.
     bindM (sample_normal_bounded R self (project_value (params self)) (2 / 10))
       (\<lambda>project_values.
       let total_project_revenue = vmul (as_float num_projects) project_values
       in returnM \<lparr>
            project_count_p = num_projects,
            avg_project_value_p = project_values,
            total_projects_p = total_project_revenue
          \<rparr>))"

record licensing_dict =
  annual_deals_l :: "int list"
  deal_value_l :: population
  monthly_licensing_l :: population

definition simulate_licensing_revenue ::
  "'g np_random \<Rightarrow> BlazeIntelMonteCarlo \<Rightarrow> (licensing_dict, 'g) rnd" where
  "simulate_licensing_revenue R self =
     bindM (sample_integer R self (annual_licensing_deals (params self))) (\<lambda>annual_deals.
     bindM (sample_normal_bounded R self (licensing_value (params self)) 0) (\<lambda>deal_values.
       let monthly_licensing = sdiv (vmul (as_float annual_deals) deal_values) 12
       in returnM \<lparr>
            annual_deals_l = annual_deals,
            deal_value_l = deal_values,
            monthly_licensing_l = monthly_licensing
          \<rparr>))"

record costs_dict =
  infrastructure_c :: population
  data_acquisition_c :: population
  personnel_c :: population
  marketing_c :: population
  total_costs_c :: population
  automation_savings_c :: population

definition simulate_costs ::
  "'g np_random \<Rightarrow> BlazeIntelMonteCarlo \<Rightarrow> (costs_dict, 'g) rnd" where
  "simulate_costs R self =
     bindM (sample_uniform R self (infrastructure_monthly (params self))) (\<lambda>infrastructure0.
     bindM (sample_normal_bounded R self (data_acquisition (params self)) 0) (\<lambda>data_acq0.
     bindM (sample_normal_bounded R self (personnel_allocation (params self)) 0) (\<lambda>personnel0.
     bindM (sample_uniform R self (marketing_monthly (params self))) (\<lambda>marketing.
     bindM (sample_uniform R self (automation_savings (params self))) (\<lambda>automation.
       let infrastructure = vmul infrastructure0 (rsub 1 (smul automation (5 / 10)));
           data_acq = vmul data_acq0 (rsub 1 (smul automation (3 / 10)));
           personnel = vmul personnel0 (rsub 1 (smul automation (2 / 10)));
           total_costs' = vadd (vadd (vadd infrastructure data_acq) personnel) marketing
       in returnM \<lparr>
            infrastructure_c = infrastructure,
            data_acquisition_c = data_acq,
            personnel_c = personnel,
            marketing_c = marketing,
            total_costs_c = total_costs',
            automation_savings_c = automation
          \<rparr>)))))"

section \<open>Market adjustment\<close>

definition apply_market_factors ::
  "'g np_random \<Rightarrow> BlazeIntelMonteCarlo \<Rightarrow> population \<Rightarrow> (population, 'g) rnd" where
  "apply_market_factors R self base_revenue =
     bindM (sample_uniform R self (seasonality_factor (params self))) (\<lambda>seasonality.
     bindM (sample_uniform R self (market_growth_rate (params self))) (\<lambda>growth.
     bindM (sample_uniform R self (platform_efficiency (params self))) (\<lambda>efficiency.
     bindM (sample_uniform R self (baseball_impact (params self))) (\<lambda>baseball0.
     bindM (sample_uniform R self (football_impact (params self))) (\<lambda>football0.
     bindM (sample_uniform R self (basketball_impact (params self))) (\<lambda>basketball0.
     bindM (sample_uniform R self (track_field_impact (params self))) (\<lambda>track0.
       let baseball = smul baseball0 (35 / 100);
           football = smul football0 (30 / 100);
           basketball = smul basketball0 (25 / 100);
           track = smul track0 (10 / 100);
           sports_factor = vadd (vadd (vadd baseball football) basketball) track;
           adjusted = vmul (vmul (vmul (vmul base_revenue seasonality) growth) efficiency)
                        sports_factor
       in returnM adjusted)))))))"

section \<open>Aggregator\<close>

text \<open>
  \<open>run_table\<close> is the body of \<open>run_simulation\<close> up to the construction of the DataFrame
  (the progress messages it prints are left out); \<open>run_simulation\<close> stores the table in
  \<open>self.results\<close> and returns it.  When a sampler raises, the engine is left as it was.
  The generator has advanced in both cases.
\<close>

definition run_table ::
  "'g np_random \<Rightarrow> BlazeIntelMonteCarlo \<Rightarrow> (trial_table, 'g) rnd" where
  "run_table R self =
     bindM (simulate_subscription_revenue R self) (\<lambda>subscription.
     bindM (simulate_api_revenue R self) (\<lambda>api.
     bindM (simulate_project_revenue R self) (\<lambda>projects.
     bindM (simulate_licensing_revenue R self) (\<lambda>licensing.
       let total_revenue =
             vadd (vadd (vadd (total_subscription_s subscription) (total_api_a api))
                     (total_projects_p projects)) (monthly_licensing_l licensing)
       in
     bindM (apply_market_factors R self total_revenue) (\<lambda>adjusted_revenue'.
     bindM (simulate_costs R self) (\<lambda>costs.
       let gross_profit' = vsub adjusted_revenue' (total_costs_c costs);
           profit_margin' = vdiv gross_profit' adjusted_revenue';
           roi = smul (vdiv gross_profit' (total_costs_c costs)) 100;
           hours_saved' = sdiv gross_profit' 55
       in returnM \<lparr>
            subscription_revenue = total_subscription_s subscription,
            api_revenue = total_api_a api,
            project_revenue = total_projects_p projects,
            licensing_revenue = monthly_licensing_l licensing,
            total_costs = total_costs_c costs,
            infrastructure_cost = infrastructure_c costs,
            data_cost = data_acquisition_c costs,
            personnel_cost = personnel_c costs,
            marketing_cost = marketing_c costs,
            gross_revenue = total_revenue,
            adjusted_revenue = adjusted_revenue',
            gross_profit = gross_profit',
            profit_margin = profit_margin',
            roi_percent = roi,
            monthly_value = gross_profit',
            hours_saved = hours_saved',
            total_subscribers = total_subscribers_s subscription,
            api_calls = api_calls_a api,
            project_count = project_count_p projects,
            automation_savings_col = automation_savings_c costs
          \<rparr>))))))"

definition run_simulation ::
  "'g np_random \<Rightarrow> BlazeIntelMonteCarlo \<Rightarrow> 'g \<Rightarrow>
     (error + trial_table) \<times> BlazeIntelMonteCarlo \<times> 'g" where
  "run_simulation R self g =
     (case run_table R self g of
        (Inl e, g') \<Rightarrow> (Inl e, self, g')
      | (Inr t, g') \<Rightarrow> (Inr t, self\<lparr>results := Some t\<rparr>, g'))"

section \<open>Summarizer\<close>

subsection \<open>The pandas reductions\<close>

text \<open>
  The summaries are computed by pandas' Series reductions, which are not part of the
  repository.  They are modelled after their documented behaviour with the default
  \<open>skipna=True\<close>: NaN entries are dropped, infinities are ordinary values, a reduction of
  nothing is NaN, and the arithmetic on what remains is the IEEE arithmetic above.
\<close>

definition dropna :: "population \<Rightarrow> population" where
  "dropna xs = filter (\<lambda>x. \<not> is_nan x) xs"

definition fsum :: "population \<Rightarrow> npfloat" where
  "fsum xs = foldr fadd xs (Fin 0)"

definition np_mean :: "population \<Rightarrow> npfloat" where
  "np_mean v = fdiv (fsum v) (Fin (real (length v)))"

definition pd_mean :: "population \<Rightarrow> npfloat" where
  "pd_mean xs = (let v = dropna xs in if v = [] then NaN else np_mean v)"

fun fmax_list :: "population \<Rightarrow> npfloat" where
  "fmax_list [] = NaN"
| "fmax_list [x] = x"
| "fmax_list (x # xs) = fmaximum x (fmax_list xs)"

fun fmin_list :: "population \<Rightarrow> npfloat" where
  "fmin_list [] = NaN"
| "fmin_list [x] = x"
| "fmin_list (x # xs) = fminimum x (fmin_list xs)"

definition pd_max :: "population \<Rightarrow> npfloat" where
  "pd_max xs = fmax_list (dropna xs)"

definition pd_min :: "population \<Rightarrow> npfloat" where
  "pd_min xs = fmin_list (dropna xs)"

fun insort_f :: "npfloat \<Rightarrow> population \<Rightarrow> population" where
  "insort_f x [] = [x]"
| "insort_f x (y # ys) = (if fle x y then x # y # ys else y # insort_f x ys)"

definition sort_f :: "population \<Rightarrow> population" where
  "sort_f xs = foldr insort_f xs []"

definition pd_median :: "population \<Rightarrow> npfloat" where
  "pd_median xs =
     (let v = sort_f (dropna xs); n = length v
      in if n = 0 then NaN
         else if odd n then v ! (n div 2)
         else fdiv (fadd (v ! (n div 2 - 1)) (v ! (n div 2))) (Fin 2))"

text \<open>Sample variance with \<open>ddof = 1\<close>.\<close>

definition pd_std :: "population \<Rightarrow> npfloat" where
  "pd_std xs =
     (let v = dropna xs; n = length v
      in if n \<le> 1 then NaN
         else let avg = np_mean v;
                  sqr = map (\<lambda>x. fmul (fsub avg x) (fsub avg x)) v
              in fsqrt (fdiv (fsum sqr) (Fin (real n - 1))))"

text \<open>Quantile by linear interpolation between the two nearest order statistics \<open>a\<close> and
  \<open>b\<close>, as NumPy computes it: \<open>a + (b - a) * t\<close> for \<open>t < 0.5\<close> and
  \<open>b - (b - a) * (1 - t)\<close> for \<open>t \<ge> 0.5\<close>.\<close>

definition pd_quantile :: "real \<Rightarrow> population \<Rightarrow> npfloat" where
  "pd_quantile q xs =
     (let v = sort_f (dropna xs); n = length v
      in if n = 0 then NaN
         else let h = q * (real n - 1);
                  lo = nat \<lfloor>h\<rfloor>;
                  hi = min (lo + 1) (n - 1);
                  frac = h - real lo;
                  diff_b_a = fsub (v ! hi) (v ! lo)
              in if 1 / 2 \<le> frac then fsub (v ! hi) (fmul diff_b_a (Fin (1 - frac)))
                 else fadd (v ! lo) (fmul diff_b_a (Fin frac)))"

text \<open>Pearson correlation over the rows where both entries are not NaN, as
  \<^verbatim>\<open>np.corrcoef\<close> computes it: the covariance divided by both standard deviations, then
  clipped into \<open>[-1, 1]\<close>.\<close>

definition np_cov :: "population \<Rightarrow> population \<Rightarrow> npfloat" where
  "np_cov xs ys =
     (let mx = np_mean xs; my = np_mean ys
      in fdiv (fsum (map2 (\<lambda>x y. fmul (fsub x mx) (fsub y my)) xs ys))
           (Fin (real (length xs) - 1)))"

definition pd_corr :: "population \<Rightarrow> population \<Rightarrow> npfloat" where
  "pd_corr a b =
     (let ps = filter (\<lambda>(x, y). \<not> is_nan x \<and> \<not> is_nan y) (zip a b);
          xs = map fst ps; ys = map snd ps
      in if ps = [] then NaN
         else np_clip (fdiv (fdiv (np_cov xs ys) (fsqrt (np_cov xs xs))) (fsqrt (np_cov ys ys)))
                (- 1) 1)"

subsection \<open>Labels\<close>

text \<open>\<^verbatim>\<open>name.replace('_', ' ').title()\<close> on ASCII names.\<close>

definition is_alpha :: "char \<Rightarrow> bool" where
  "is_alpha c = (let k = (of_char c :: nat) in (65 \<le> k \<and> k \<le> 90) \<or> (97 \<le> k \<and> k \<le> 122))"

definition upper_char :: "char \<Rightarrow> char" where
  "upper_char c = (let k = (of_char c :: nat) in if 97 \<le> k \<and> k \<le> 122 then char_of (k - 32) else c)"

definition lower_char :: "char \<Rightarrow> char" where
  "lower_char c = (let k = (of_char c :: nat) in if 65 \<le> k \<and> k \<le> 90 then char_of (k + 32) else c)"

definition replace_underscores :: "string \<Rightarrow> string" where
  "replace_underscores s = map (\<lambda>c. if c = CHR ''_'' then CHR '' '' else c) s"

fun title_from :: "bool \<Rightarrow> string \<Rightarrow> string" where
  "title_from inside [] = []"
| "title_from inside (c # cs) =
     (if is_alpha c then (if inside then lower_char c else upper_char c) # title_from True cs
      else c # title_from False cs)"

definition title :: "string \<Rightarrow> string" where
  "title s = title_from False s"

subsection \<open>Summary statistics\<close>

record summary_row =
  Metric :: string
  Mean :: npfloat
  Median :: npfloat
  Std_Dev :: npfloat
  Pct_5 :: npfloat
  Pct_25 :: npfloat
  Pct_75 :: npfloat
  Pct_95 :: npfloat
  Min_val :: npfloat
  Max_val :: npfloat

text \<open>Each metric name with the column \<open>self.results[metric]\<close> it selects.\<close>

definition key_metrics :: "(string \<times> (trial_table \<Rightarrow> population)) list" where
  "key_metrics =
     [(''monthly_value'', monthly_value), (''adjusted_revenue'', adjusted_revenue),
      (''gross_profit'', gross_profit), (''roi_percent'', roi_percent),
      (''hours_saved'', hours_saved), (''total_subscribers'', total_subscribers)]"

definition metric_stats :: "trial_table \<Rightarrow> string \<times> (trial_table \<Rightarrow> population) \<Rightarrow> summary_row"
  where
  "metric_stats t m =
     \<lparr> Metric = title (replace_underscores (fst m)),
       Mean = pd_mean (snd m t),
       Median = pd_median (snd m t),
       Std_Dev = pd_std (snd m t),
       Pct_5 = pd_quantile (5 / 100) (snd m t),
       Pct_25 = pd_quantile (25 / 100) (snd m t),
       Pct_75 = pd_quantile (75 / 100) (snd m t),
       Pct_95 = pd_quantile (95 / 100) (snd m t),
       Min_val = pd_min (snd m t),
       Max_val = pd_max (snd m t) \<rparr>"

text \<open>The methods of the summarizer return their result together with the engine, which
  they only read.\<close>

definition generate_statistics ::
  "BlazeIntelMonteCarlo \<Rightarrow> (error + summary_row list) \<times> BlazeIntelMonteCarlo" where
  "generate_statistics self =
     (case results self of
        None \<Rightarrow> (Inl (ValueError ''Must run simulation first''), self)
      | Some t \<Rightarrow> (Inr (map (metric_stats t) key_metrics), self))"

subsection \<open>Sensitivity analysis\<close>

record sensitivity_row =
  Factor :: string
  Correlation :: npfloat
  Impact_Score :: npfloat
  Relative_Importance :: string

definition factors :: "(string \<times> (trial_table \<Rightarrow> population)) list" where
  "factors =
     [(''subscription_revenue'', subscription_revenue), (''api_revenue'', api_revenue),
      (''project_revenue'', project_revenue), (''licensing_revenue'', licensing_revenue),
      (''total_costs'', total_costs), (''automation_savings'', automation_savings_col)]"

definition sensitivity_entry ::
  "trial_table \<Rightarrow> string \<times> (trial_table \<Rightarrow> population) \<Rightarrow> sensitivity_row" where
  "sensitivity_entry t f =
     (let correlation = pd_corr (monthly_value t) (snd f t);
          impact = fmul (fdiv (pd_std (snd f t)) (pd_mean (snd f t))) (fabs correlation)
      in \<lparr> Factor = title (replace_underscores (fst f)),
           Correlation = correlation,
           Impact_Score = impact,
           Relative_Importance =
             (if flt (Fin (3 / 10)) (fabs correlation) then ''High''
              else if flt (Fin (1 / 10)) (fabs correlation) then ''Medium''
              else ''Low'') \<rparr>)"

text \<open>\<^verbatim>\<open>sort_values('Impact Score', ascending=False)\<close>: the rows whose key is not NaN are
  reversed, sorted ascending by a stable sort and reversed again; the rows whose key is NaN
  follow, in their original order.\<close>

fun insort_row :: "sensitivity_row \<Rightarrow> sensitivity_row list \<Rightarrow> sensitivity_row list" where
  "insort_row x [] = [x]"
| "insort_row x (y # ys) =
     (if fle (Impact_Score x) (Impact_Score y) then x # y # ys else y # insort_row x ys)"

definition sort_values_desc :: "sensitivity_row list \<Rightarrow> sensitivity_row list" where
  "sort_values_desc rows =
     rev (foldr insort_row (rev (filter (\<lambda>r. \<not> is_nan (Impact_Score r)) rows)) [])
       @ filter (\<lambda>r. is_nan (Impact_Score r)) rows"

definition sensitivity_analysis ::
  "BlazeIntelMonteCarlo \<Rightarrow> (error + sensitivity_row list) \<times> BlazeIntelMonteCarlo" where
  "sensitivity_analysis self =
     (case results self of
        None \<Rightarrow> (Inl (ValueError ''Must run simulation first''), self)
      | Some t \<Rightarrow> (Inr (sort_values_desc (map (sensitivity_entry t) factors)), self))"

section \<open>The sport weights in binary64\<close>







section \<open>Predicates of the statements\<close>

text \<open>Whether a value lies in the closed interval \<open>[lo, hi]\<close>; NaN lies in no interval.\<close>

definition in_range :: "real \<Rightarrow> real \<Rightarrow> npfloat \<Rightarrow> bool" where
  "in_range lo hi x \<longleftrightarrow> fle (Fin lo) x \<and> fle x (Fin hi)"


text \<open>The ranges on which the library calls do not raise: an integer range must fit
  \<open>int64\<close> and be non-empty, a bounded-normal range must not be reversed (its scale
  is a quarter of its width).  Uniform ranges are not checked by anything.\<close>

definition int_range_ok :: "int \<times> int \<Rightarrow> bool" where
  "int_range_ok r \<longleftrightarrow> - (2 ^ 63) \<le> fst r \<and> snd r \<le> 2 ^ 63 - 1 \<and> fst r \<le> snd r"

definition normal_range_ok :: "real \<times> real \<Rightarrow> bool" where
  "normal_range_ok r \<longleftrightarrow> fst r \<le> snd r"

definition sampling_ok :: "SimulationParameters \<Rightarrow> bool" where
  "sampling_ok p \<longleftrightarrow>
     int_range_ok (basic_subscribers p) \<and> int_range_ok (pro_subscribers p) \<and>
     int_range_ok (enterprise_subscribers p) \<and> int_range_ok (monthly_api_calls p) \<and>
     int_range_ok (projects_per_month p) \<and> int_range_ok (annual_licensing_deals p) \<and>
     normal_range_ok (project_value p) \<and> normal_range_ok (licensing_value p) \<and>
     normal_range_ok (data_acquisition p) \<and> normal_range_ok (personnel_allocation p)"

section \<open>Concrete instances\<close>

text \<open>A small generator on which the engine can be evaluated: its state counts the draws
  made so far, and a seed is the count to start from.\<close>

definition counter_rng :: "nat np_random" where
  "counter_rng =
     \<lparr> random_sample = (\<lambda>g. (real (g mod 8) / 8, g + 1)),
       standard_normal = (\<lambda>g. (real (g mod 5) - 2, g + 1)),
       bounded_uint = (\<lambda>r g. (g mod (r + 1), g + 1)),
       seed_state = (\<lambda>s. s) \<rparr>"

text \<open>The default engine with two trials, and the table of its run from seed \<open>0\<close>.\<close>

definition demo_engine :: BlazeIntelMonteCarlo where
  "demo_engine = init default_parameters 2"

definition demo_table :: trial_table where
  "demo_table = projr (fst (run_simulation counter_rng demo_engine 0))"

text \<open>The default engine with the project value pinned to one number.\<close>

definition degenerate_engine :: BlazeIntelMonteCarlo where
  "degenerate_engine = init (default_parameters\<lparr>project_value := (5000, 5000)\<rparr>) 2"

definition degenerate_table :: trial_table where
  "degenerate_table = projr (fst (run_simulation counter_rng degenerate_engine 0))"

text \<open>The default engine with a churn range above one, and one trial.\<close>

definition churn_engine :: BlazeIntelMonteCarlo where
  "churn_engine = init (default_parameters\<lparr>churn_rate := (2, 3)\<rparr>) 1"

definition churn_table :: trial_table where
  "churn_table = projr (fst (run_simulation counter_rng churn_engine 0))"

text \<open>The default engine with a reversed price range, and with a reversed subscriber
  range.\<close>

definition reversed_engine :: BlazeIntelMonteCarlo where
  "reversed_engine = init (default_parameters\<lparr>basic_price := (49, 29)\<rparr>) 1"

definition reversed_table :: trial_table where
  "reversed_table = projr (fst (run_simulation counter_rng reversed_engine 0))"

definition empty_range_engine :: BlazeIntelMonteCarlo where
  "empty_range_engine = init (default_parameters\<lparr>basic_subscribers := (300, 50)\<rparr>) 1"

text \<open>The default engine with all cost ranges \<open>(0, 0)\<close>, its table and the summary
  computed after its run.\<close>

definition zero_cost_engine :: BlazeIntelMonteCarlo where
  "zero_cost_engine =
     init (default_parameters\<lparr>infrastructure_monthly := (0, 0), data_acquisition := (0, 0),
             personnel_allocation := (0, 0), marketing_monthly := (0, 0)\<rparr>) 2"



text \<open>The default engine with all cost ranges \<open>(0, 0)\<close> and the seasonality pinned to zero,
  and the default engine with a total cost just above zero; one trial each.\<close>

definition zero_both_engine :: BlazeIntelMonteCarlo where
  "zero_both_engine =
     init (default_parameters\<lparr>infrastructure_monthly := (0, 0), data_acquisition := (0, 0),
             personnel_allocation := (0, 0), marketing_monthly := (0, 0),
             seasonality_factor := (0, 0)\<rparr>) 1"


definition near_zero_engine :: BlazeIntelMonteCarlo where
  "near_zero_engine =
     init (default_parameters\<lparr>infrastructure_monthly := (1 / 1000000, 1 / 1000000),
             data_acquisition := (0, 0), personnel_allocation := (0, 0),
             marketing_monthly := (0, 0)\<rparr>) 1"


text \<open>The default engine with one trial, and the same engine holding a table already.\<close>

definition single_engine :: BlazeIntelMonteCarlo where
  "single_engine = init default_parameters 1"

definition stale_engine :: BlazeIntelMonteCarlo where
  "stale_engine = single_engine\<lparr>results := Some demo_table\<rparr>"

section \<open>Theorems\<close>

subsection \<open>Sampling\<close>

lemma np_clip_NaN: "np_clip NaN lo hi = NaN"
  by (simp add: np_clip_def fmaximum_def fminimum_def)

lemma draws_length': "draws f n g = (xs, g') \<Longrightarrow> length xs = n"
  by (induction n arbitrary: g xs g') (auto split: prod.splits)

lemma draws_length: "length (fst (draws f n g)) = n"
  by (cases "draws f n g") (simp add: draws_length')

lemma draws_all: "(\<And>g. P (fst (f g))) \<Longrightarrow> x \<in> set (fst (draws f n g)) \<Longrightarrow> P x"
proof (induction n arbitrary: g)
  case 0
  then show ?case by simp
next
  case (Suc n)
  obtain y g1 where fg: "f g = (y, g1)" by (cases "f g")
  obtain ys g2 where dr: "draws f n g1 = (ys, g2)" by (cases "draws f n g1")
  from Suc.prems(2) fg dr have "x = y \<or> x \<in> set ys" by simp
  then show ?case
  proof
    assume "x = y"
    with Suc.prems(1) [of g] fg show ?thesis by simp
  next
    assume "x \<in> set ys"
    with dr have "x \<in> set (fst (draws f n g1))" by simp
    with Suc.IH Suc.prems(1) show ?thesis by blast
  qed
qed

lemma bindM_Inr:
  "bindM m f g = (Inr y, g') \<longleftrightarrow> (\<exists>x g1. m g = (Inr x, g1) \<and> f x g1 = (Inr y, g'))"
  by (auto simp: bindM_def split: prod.splits sum.splits)

lemma returnM_Inr: "returnM x g = (Inr y, g') \<longleftrightarrow> y = x \<and> g' = g"
  by (auto simp: returnM_def)

lemma sample_uniform_Inr:
  "\<exists>us g'. sample_uniform R self r g = (Inr us, g') \<and> length us = n_simulations self"
  using draws_length [of "random_sample R" "n_simulations self" g]
  by (auto simp: sample_uniform_def split: prod.splits)

lemma sample_uniform_length:
  "sample_uniform R self r g = (Inr us, g') \<Longrightarrow> length us = n_simulations self"
  using draws_length [of "random_sample R" "n_simulations self" g]
  by (auto simp: sample_uniform_def split: prod.splits)

lemma sample_uniform_range:
  assumes ok: "rng_ok R" and le: "lo \<le> hi"
    and s: "sample_uniform R self (lo, hi) g = (Inr us, g')" and x: "x \<in> set us"
  shows "\<exists>v. x = Fin v \<and> lo \<le> v \<and> v \<le> hi"
proof -
  obtain ds g1 where d: "draws (random_sample R) (n_simulations self) g = (ds, g1)"
    by (cases "draws (random_sample R) (n_simulations self) g")
  from s d have us: "us = map (\<lambda>u. Fin (lo + (hi - lo) * u)) ds"
    by (simp add: sample_uniform_def)
  with x obtain u where u: "u \<in> set ds" and xu: "x = Fin (lo + (hi - lo) * u)" by auto
  from u d have "u \<in> set (fst (draws (random_sample R) (n_simulations self) g))" by simp
  then have "0 \<le> u \<and> u < 1"
    using ok by (rule_tac draws_all [where P = "\<lambda>u. 0 \<le> u \<and> u < 1"]) (auto simp: rng_ok_def)
  then have "0 \<le> (hi - lo) * u" "(hi - lo) * u \<le> hi - lo"
    using le by (auto intro!: mult_left_le)
  with xu show ?thesis by auto
qed

lemma sample_integer_length:
  "sample_integer R self r g = (Inr ks, g') \<Longrightarrow> length ks = n_simulations self"
  using draws_length [of "bounded_uint R (nat (snd r - fst r))" "n_simulations self" g]
  by (auto simp: sample_integer_def Let_def split: prod.splits if_splits)

lemma sample_integer_range:
  assumes ok: "rng_ok R"
    and s: "sample_integer R self (lo, hi) g = (Inr ks, g')" and x: "k \<in> set ks"
  shows "lo \<le> k \<and> k \<le> hi"
proof -
  from s x have le: "lo \<le> hi" by (auto simp: sample_integer_def Let_def split: if_splits)
  obtain ds g1 where
    d: "draws (bounded_uint R (nat (hi - lo))) (n_simulations self) g = (ds, g1)"
    by (cases "draws (bounded_uint R (nat (hi - lo))) (n_simulations self) g")
  from s d x have "ks = map (\<lambda>j. lo + int j) ds"
    by (auto simp: sample_integer_def Let_def split: if_splits)
  with x obtain j where j: "j \<in> set ds" and kj: "k = lo + int j" by auto
  from j d have "j \<in> set (fst (draws (bounded_uint R (nat (hi - lo))) (n_simulations self) g))"
    by simp
  then have "j \<le> nat (hi - lo)"
    using ok by (rule_tac draws_all [where P = "\<lambda>j. j \<le> nat (hi - lo)"]) (auto simp: rng_ok_def)
  with kj le show ?thesis by auto
qed

lemma sample_normal_length:
  "sample_normal_bounded R self r skew g = (Inr xs, g') \<Longrightarrow> length xs = n_simulations self"
  using draws_length [of "standard_normal R" "n_simulations self" g]
  by (auto simp: sample_normal_bounded_def Let_def split: prod.splits if_splits)


lemma sample_normal_degenerate:
  assumes "skew \<noteq> 0"
  shows "fst (sample_normal_bounded R self (v, v) skew g) = Inr (replicate (n_simulations self) NaN)"
proof -
  obtain zs g1 where d: "draws (standard_normal R) (n_simulations self) g = (zs, g1)"
    by (cases "draws (standard_normal R) (n_simulations self) g")
  have len: "length zs = n_simulations self"
    using draws_length [of "standard_normal R" "n_simulations self" g] d by simp
  have "map (\<lambda>z. NaN) zs = replicate (length zs) NaN"
    by (simp add: map_replicate_const)
  with d len assms show ?thesis
    by (simp add: sample_normal_bounded_def Let_def fsub_def inf_of_sign_def np_clip_NaN o_def)
qed

subsection \<open>Shape of a run\<close>

lemma length_ops:
  "length (vmul xs ys) = min (length xs) (length ys)"
  "length (vadd xs ys) = min (length xs) (length ys)"
  "length (vsub xs ys) = min (length xs) (length ys)"
  "length (vdiv xs ys) = min (length xs) (length ys)"
  "length (smul xs c) = length xs"
  "length (sdiv xs c) = length xs"
  "length (rsub c xs) = length xs"
  "length (as_float ks) = length ks"
  "length (iadd ks js) = min (length ks) (length js)"
  by (simp_all add: vmul_def vadd_def vsub_def vdiv_def smul_def sdiv_def rsub_def
      as_float_def iadd_def)

lemma run_table_fields:
  assumes "run_table R self g = (Inr t, g')"
  obtains sub api prj lic costs g1 g2 g3 g4 g5 where
    "simulate_subscription_revenue R self g = (Inr sub, g1)"
    "simulate_api_revenue R self g1 = (Inr api, g2)"
    "simulate_project_revenue R self g2 = (Inr prj, g3)"
    "simulate_licensing_revenue R self g3 = (Inr lic, g4)"
    "apply_market_factors R self (gross_revenue t) g4 = (Inr (adjusted_revenue t), g5)"
    "simulate_costs R self g5 = (Inr costs, g')"
    "gross_revenue t =
       vadd (vadd (vadd (total_subscription_s sub) (total_api_a api)) (total_projects_p prj))
         (monthly_licensing_l lic)"
    "subscription_revenue t = total_subscription_s sub"
    "total_subscribers t = total_subscribers_s sub"
    "project_revenue t = total_projects_p prj"
    "total_costs t = total_costs_c costs"
    "gross_profit t = vsub (adjusted_revenue t) (total_costs t)"
    "profit_margin t = vdiv (gross_profit t) (adjusted_revenue t)"
    "roi_percent t = smul (vdiv (gross_profit t) (total_costs t)) 100"
    "hours_saved t = sdiv (gross_profit t) 55"
    "monthly_value t = gross_profit t"
  using assms
  by (auto simp: run_table_def bindM_Inr returnM_Inr Let_def)

lemma subscription_length:
  assumes "simulate_subscription_revenue R self g = (Inr sub, g')"
  shows "length (total_subscription_s sub) = n_simulations self"
    and "length (total_subscribers_s sub) = n_simulations self"
  using assms
  by (auto simp: simulate_subscription_revenue_def bindM_Inr returnM_Inr Let_def length_ops
      dest!: sample_uniform_length sample_integer_length)

lemma api_length:
  assumes "simulate_api_revenue R self g = (Inr api, g')"
  shows "length (total_api_a api) = n_simulations self"
  using assms
  by (auto simp: simulate_api_revenue_def bindM_Inr returnM_Inr Let_def length_ops
      dest!: sample_uniform_length sample_integer_length)

lemma project_length:
  assumes "simulate_project_revenue R self g = (Inr prj, g')"
  shows "length (total_projects_p prj) = n_simulations self"
  using assms
  by (auto simp: simulate_project_revenue_def bindM_Inr returnM_Inr Let_def length_ops
      dest!: sample_normal_length sample_integer_length)

lemma licensing_length:
  assumes "simulate_licensing_revenue R self g = (Inr lic, g')"
  shows "length (monthly_licensing_l lic) = n_simulations self"
  using assms
  by (auto simp: simulate_licensing_revenue_def bindM_Inr returnM_Inr Let_def length_ops
      dest!: sample_normal_length sample_integer_length)

lemma costs_length:
  assumes "simulate_costs R self g = (Inr costs, g')"
  shows "length (total_costs_c costs) = n_simulations self"
  using assms
  by (auto simp: simulate_costs_def bindM_Inr returnM_Inr Let_def length_ops
      dest!: sample_normal_length sample_uniform_length)

lemma market_length:
  assumes "apply_market_factors R self base g = (Inr adj, g')"
    and "length base = n_simulations self"
  shows "length adj = n_simulations self"
  using assms
  by (auto simp: apply_market_factors_def bindM_Inr returnM_Inr Let_def length_ops
      dest!: sample_uniform_length)

lemma run_table_lengths:
  assumes "run_table R self g = (Inr t, g')"
  shows "length (gross_revenue t) = n_simulations self"
    and "length (adjusted_revenue t) = n_simulations self"
    and "length (total_costs t) = n_simulations self"
    and "length (gross_profit t) = n_simulations self"
proof -
  from assms obtain sub api prj lic costs g1 g2 g3 g4 g5 where f:
    "simulate_subscription_revenue R self g = (Inr sub, g1)"
    "simulate_api_revenue R self g1 = (Inr api, g2)"
    "simulate_project_revenue R self g2 = (Inr prj, g3)"
    "simulate_licensing_revenue R self g3 = (Inr lic, g4)"
    "apply_market_factors R self (gross_revenue t) g4 = (Inr (adjusted_revenue t), g5)"
    "simulate_costs R self g5 = (Inr costs, g')"
    "gross_revenue t =
       vadd (vadd (vadd (total_subscription_s sub) (total_api_a api)) (total_projects_p prj))
         (monthly_licensing_l lic)"
    "total_costs t = total_costs_c costs"
    "gross_profit t = vsub (adjusted_revenue t) (total_costs t)"
    by (rule run_table_fields)
  show 1: "length (gross_revenue t) = n_simulations self"
    using f(7) subscription_length(1) [OF f(1)] api_length [OF f(2)] project_length [OF f(3)]
      licensing_length [OF f(4)]
    by (simp add: length_ops)
  show 2: "length (adjusted_revenue t) = n_simulations self"
    using market_length [OF f(5) 1] .
  show 3: "length (total_costs t) = n_simulations self"
    using costs_length [OF f(6)] f(8) by simp
  show "length (gross_profit t) = n_simulations self"
    using f(9) 2 3 by (simp add: length_ops)
qed

lemma run_simulation_table:
  "fst (run_simulation R self g) = fst (run_table R self g)"
  by (auto simp: run_simulation_def split: prod.splits sum.splits)

lemma nan_absorbs:
  "fadd NaN x = NaN" "fadd x NaN = NaN" "fmul NaN x = NaN" "fmul x NaN = NaN"
  "fdiv NaN x = NaN" "fdiv x NaN = NaN" "fsub NaN x = NaN" "fsub x NaN = NaN"
  by (cases x; simp add: fsub_def)+

lemma nth_ops:
  "i < length xs \<Longrightarrow> i < length ys \<Longrightarrow> vmul xs ys ! i = fmul (xs ! i) (ys ! i)"
  "i < length xs \<Longrightarrow> i < length ys \<Longrightarrow> vadd xs ys ! i = fadd (xs ! i) (ys ! i)"
  "i < length xs \<Longrightarrow> i < length ys \<Longrightarrow> vsub xs ys ! i = fsub (xs ! i) (ys ! i)"
  "i < length xs \<Longrightarrow> i < length ys \<Longrightarrow> vdiv xs ys ! i = fdiv (xs ! i) (ys ! i)"
  "i < length xs \<Longrightarrow> smul xs c ! i = fmul (xs ! i) (Fin c)"
  "i < length xs \<Longrightarrow> sdiv xs c ! i = fdiv (xs ! i) (Fin c)"
  "i < length xs \<Longrightarrow> rsub c xs ! i = fsub (Fin c) (xs ! i)"
  "i < length ks \<Longrightarrow> as_float ks ! i = Fin (of_int (ks ! i))"
  by (simp_all add: vmul_def vadd_def vsub_def vdiv_def smul_def sdiv_def rsub_def as_float_def)

lemma run_table_nth:
  assumes run: "run_table R self g = (Inr t, g')" and i: "i < n_simulations self"
  shows "gross_profit t ! i = fsub (adjusted_revenue t ! i) (total_costs t ! i)"
    and "profit_margin t ! i = fdiv (gross_profit t ! i) (adjusted_revenue t ! i)"
    and "roi_percent t ! i = fmul (fdiv (gross_profit t ! i) (total_costs t ! i)) (Fin 100)"
    and "hours_saved t ! i = fdiv (gross_profit t ! i) (Fin 55)"
    and "monthly_value t ! i = gross_profit t ! i"
proof -
  note len = run_table_lengths [OF run]
  from run obtain sub api prj lic costs g1 g2 g3 g4 g5 where f:
    "gross_profit t = vsub (adjusted_revenue t) (total_costs t)"
    "profit_margin t = vdiv (gross_profit t) (adjusted_revenue t)"
    "roi_percent t = smul (vdiv (gross_profit t) (total_costs t)) 100"
    "hours_saved t = sdiv (gross_profit t) 55"
    "monthly_value t = gross_profit t"
    by (rule run_table_fields)
  show "gross_profit t ! i = fsub (adjusted_revenue t ! i) (total_costs t ! i)"
    using i len by (subst f(1)) (simp add: nth_ops)
  show "profit_margin t ! i = fdiv (gross_profit t ! i) (adjusted_revenue t ! i)"
    using i len by (subst f(2)) (simp add: nth_ops)
  show "roi_percent t ! i = fmul (fdiv (gross_profit t ! i) (total_costs t ! i)) (Fin 100)"
    using i len by (subst f(3)) (simp add: nth_ops length_ops)
  show "hours_saved t ! i = fdiv (gross_profit t ! i) (Fin 55)"
    using i len by (subst f(4)) (simp add: nth_ops)
  show "monthly_value t ! i = gross_profit t ! i"
    by (simp add: f(5))
qed

lemma run_table_column_lengths:
  assumes run: "run_table R self g = (Inr t, g')"
  shows "length (profit_margin t) = n_simulations self"
    and "length (roi_percent t) = n_simulations self"
    and "length (hours_saved t) = n_simulations self"
    and "length (monthly_value t) = n_simulations self"
proof -
  note len = run_table_lengths [OF run]
  from run obtain sub api prj lic costs g1 g2 g3 g4 g5 where f:
    "profit_margin t = vdiv (gross_profit t) (adjusted_revenue t)"
    "roi_percent t = smul (vdiv (gross_profit t) (total_costs t)) 100"
    "hours_saved t = sdiv (gross_profit t) 55"
    "monthly_value t = gross_profit t"
    by (rule run_table_fields)
  show "length (profit_margin t) = n_simulations self"
    using len by (simp add: f(1) length_ops)
  show "length (roi_percent t) = n_simulations self"
    using len by (simp add: f(2) length_ops)
  show "length (hours_saved t) = n_simulations self"
    using len by (simp add: f(3) length_ops)
  show "length (monthly_value t) = n_simulations self"
    using len by (simp add: f(4))
qed

lemma run_simulation_Inr:
  "fst (run_simulation R self g) = Inr t \<Longrightarrow> \<exists>g'. run_table R self g = (Inr t, g')"
  by (cases "run_table R self g") (auto simp: run_simulation_def split: sum.splits)

subsection \<open>When a run returns\<close>

lemma sample_uniform_ok: "\<exists>us g'. sample_uniform R self r g = (Inr us, g')"
  using sample_uniform_Inr [of R self r g] by blast

lemma sample_integer_ok:
  "int_range_ok r \<Longrightarrow> \<exists>ks g'. sample_integer R self r g = (Inr ks, g')"
  by (auto simp: sample_integer_def int_range_ok_def Let_def split: prod.splits)

lemma sample_integer_fails:
  "\<not> int_range_ok r \<Longrightarrow> 0 < n_simulations self \<Longrightarrow>
     \<exists>msg. sample_integer R self r g = (Inl (ValueError msg), g)"
  by (auto simp: sample_integer_def int_range_ok_def Let_def)

lemma sample_integer_empty:
  "n_simulations self = 0 \<Longrightarrow> sample_integer R self r g = (Inr [], g)"
  by (simp add: sample_integer_def)

lemma sample_normal_ok:
  "normal_range_ok r \<Longrightarrow> \<exists>xs g'. sample_normal_bounded R self r skew g = (Inr xs, g')"
  by (auto simp: sample_normal_bounded_def normal_range_ok_def Let_def split: prod.splits)

lemma sample_normal_fails:
  "\<not> normal_range_ok r \<Longrightarrow>
     \<exists>msg. sample_normal_bounded R self r skew g = (Inl (ValueError msg), g)"
  by (auto simp: sample_normal_bounded_def normal_range_ok_def Let_def)

lemma sample_integer_Inr_ok:
  "sample_integer R self r g = (Inr ks, g') \<Longrightarrow> 0 < n_simulations self \<Longrightarrow> int_range_ok r"
  using sample_integer_fails [of r self R g] by auto

lemma sample_normal_Inr_ok:
  "sample_normal_bounded R self r skew g = (Inr xs, g') \<Longrightarrow> normal_range_ok r"
  using sample_normal_fails [of r R self skew g] by auto

lemma bindM_ok:
  "(\<exists>y g'. bindM m f g = (Inr y, g')) \<longleftrightarrow>
     (\<exists>x g1. m g = (Inr x, g1) \<and> (\<exists>y g'. f x g1 = (Inr y, g')))"
  by (auto simp: bindM_Inr)

lemma bindM_ok_const:
  assumes "\<And>x g1. (\<exists>y g'. f x g1 = (Inr y, g')) \<longleftrightarrow> P"
  shows "(\<exists>y g'. bindM m f g = (Inr y, g')) \<longleftrightarrow> (\<exists>x g1. m g = (Inr x, g1)) \<and> P"
  using assms by (auto simp: bindM_Inr)

lemma returnM_ok: "(\<exists>y g'. returnM x g = (Inr y, g')) \<longleftrightarrow> True"
  by (simp add: returnM_def)

lemma sample_uniform_ok_iff: "(\<exists>us g'. sample_uniform R self r g = (Inr us, g')) \<longleftrightarrow> True"
  using sample_uniform_ok [of R self r g] by simp

lemma sample_integer_ok_iff:
  "(\<exists>ks g'. sample_integer R self r g = (Inr ks, g')) \<longleftrightarrow>
     n_simulations self = 0 \<or> int_range_ok r"
  using sample_integer_ok [of r R self g] sample_integer_Inr_ok [of R self r g]
    sample_integer_empty [of self R r g]
  by (cases "n_simulations self = 0") auto

lemma sample_normal_ok_iff:
  "(\<exists>xs g'. sample_normal_bounded R self r skew g = (Inr xs, g')) \<longleftrightarrow> normal_range_ok r"
  using sample_normal_ok [of r R self skew g] sample_normal_Inr_ok [of R self r skew g] by blast

lemmas ok_simps = bindM_ok returnM_ok sample_uniform_ok_iff sample_integer_ok_iff
  sample_normal_ok_iff Let_def

lemma subscription_ok_iff:
  "(\<exists>s g'. simulate_subscription_revenue R self g = (Inr s, g')) \<longleftrightarrow>
     (n_simulations self = 0 \<or> int_range_ok (basic_subscribers (params self))) \<and>
     (n_simulations self = 0 \<or> int_range_ok (pro_subscribers (params self))) \<and>
     (n_simulations self = 0 \<or> int_range_ok (enterprise_subscribers (params self)))"
  unfolding simulate_subscription_revenue_def by (simp add: ok_simps)

lemma api_ok_iff:
  "(\<exists>s g'. simulate_api_revenue R self g = (Inr s, g')) \<longleftrightarrow>
     n_simulations self = 0 \<or> int_range_ok (monthly_api_calls (params self))"
  unfolding simulate_api_revenue_def by (simp add: ok_simps)

lemma project_ok_iff:
  "(\<exists>s g'. simulate_project_revenue R self g = (Inr s, g')) \<longleftrightarrow>
     (n_simulations self = 0 \<or> int_range_ok (projects_per_month (params self))) \<and>
     normal_range_ok (project_value (params self))"
  unfolding simulate_project_revenue_def by (simp add: ok_simps)

lemma licensing_ok_iff:
  "(\<exists>s g'. simulate_licensing_revenue R self g = (Inr s, g')) \<longleftrightarrow>
     (n_simulations self = 0 \<or> int_range_ok (annual_licensing_deals (params self))) \<and>
     normal_range_ok (licensing_value (params self))"
  unfolding simulate_licensing_revenue_def by (simp add: ok_simps)

lemma costs_ok_iff:
  "(\<exists>s g'. simulate_costs R self g = (Inr s, g')) \<longleftrightarrow>
     normal_range_ok (data_acquisition (params self)) \<and>
     normal_range_ok (personnel_allocation (params self))"
  unfolding simulate_costs_def by (simp add: ok_simps)

lemma market_ok_iff:
  "(\<exists>s g'. apply_market_factors R self base g = (Inr s, g')) \<longleftrightarrow> True"
  unfolding apply_market_factors_def by (simp add: ok_simps)

text \<open>A run returns exactly when the samplers accept the ranges; with no trial at all the
  integer ranges are not looked at.\<close>

lemma run_table_ok_iff:
  "(\<exists>t g'. run_table R self g = (Inr t, g')) \<longleftrightarrow>
     sampling_ok (params self) \<or>
     (n_simulations self = 0 \<and>
      normal_range_ok (project_value (params self)) \<and>
      normal_range_ok (licensing_value (params self)) \<and>
      normal_range_ok (data_acquisition (params self)) \<and>
      normal_range_ok (personnel_allocation (params self)))"
proof -
  have "(\<exists>t g'. run_table R self g = (Inr t, g')) \<longleftrightarrow>
     (n_simulations self = 0 \<or> int_range_ok (basic_subscribers (params self))) \<and>
     (n_simulations self = 0 \<or> int_range_ok (pro_subscribers (params self))) \<and>
     (n_simulations self = 0 \<or> int_range_ok (enterprise_subscribers (params self))) \<and>
     (n_simulations self = 0 \<or> int_range_ok (monthly_api_calls (params self))) \<and>
     (n_simulations self = 0 \<or> int_range_ok (projects_per_month (params self))) \<and>
     normal_range_ok (project_value (params self)) \<and>
     (n_simulations self = 0 \<or> int_range_ok (annual_licensing_deals (params self))) \<and>
     normal_range_ok (licensing_value (params self)) \<and>
     normal_range_ok (data_acquisition (params self)) \<and>
     normal_range_ok (personnel_allocation (params self))"
    unfolding run_table_def
    by (simp add: bindM_ok returnM_ok Let_def subscription_ok_iff api_ok_iff project_ok_iff
        licensing_ok_iff costs_ok_iff market_ok_iff)
  then show ?thesis
    unfolding sampling_ok_def by blast
qed

lemma run_simulation_ok_iff:
  "(\<exists>t. fst (run_simulation R self g) = Inr t) \<longleftrightarrow>
     sampling_ok (params self) \<or>
     (n_simulations self = 0 \<and>
      normal_range_ok (project_value (params self)) \<and>
      normal_range_ok (licensing_value (params self)) \<and>
      normal_range_ok (data_acquisition (params self)) \<and>
      normal_range_ok (personnel_allocation (params self)))"
proof -
  have "(\<exists>t. fst (run_simulation R self g) = Inr t) \<longleftrightarrow> (\<exists>t g'. run_table R self g = (Inr t, g'))"
    by (cases "run_table R self g") (auto simp: run_simulation_def split: sum.splits)
  then show ?thesis by (simp only: run_table_ok_iff)
qed

text \<open>Whatever a run raises is a \<open>ValueError\<close>.\<close>

lemma bindM_Inl:
  "bindM m f g = (Inl e, g') \<longleftrightarrow>
     m g = (Inl e, g') \<or> (\<exists>x g1. m g = (Inr x, g1) \<and> f x g1 = (Inl e, g'))"
  by (auto simp: bindM_def split: prod.splits sum.splits)

lemma returnM_Inl: "returnM x g = (Inl e, g') \<longleftrightarrow> False"
  by (simp add: returnM_def)

lemma sample_uniform_Inl: "sample_uniform R self r g = (Inl e, g') \<longleftrightarrow> False"
  by (simp add: sample_uniform_def split: prod.splits)

lemma sample_integer_Inl:
  "sample_integer R self r g = (Inl e, g') \<Longrightarrow> error_class e = ''ValueError''"
  by (auto simp: sample_integer_def Let_def split: if_splits prod.splits)

lemma sample_normal_Inl:
  "sample_normal_bounded R self r skew g = (Inl e, g') \<Longrightarrow> error_class e = ''ValueError''"
  by (auto simp: sample_normal_bounded_def Let_def split: if_splits prod.splits)

lemmas Inl_simps = bindM_Inl returnM_Inl sample_uniform_Inl Let_def

lemma subscription_Inl:
  "simulate_subscription_revenue R self g = (Inl e, g') \<Longrightarrow> error_class e = ''ValueError''"
  by (auto simp: simulate_subscription_revenue_def Inl_simps dest: sample_integer_Inl)

lemma api_Inl:
  "simulate_api_revenue R self g = (Inl e, g') \<Longrightarrow> error_class e = ''ValueError''"
  by (auto simp: simulate_api_revenue_def Inl_simps dest: sample_integer_Inl)

lemma project_Inl:
  "simulate_project_revenue R self g = (Inl e, g') \<Longrightarrow> error_class e = ''ValueError''"
  by (auto simp: simulate_project_revenue_def Inl_simps
      dest: sample_integer_Inl sample_normal_Inl)

lemma licensing_Inl:
  "simulate_licensing_revenue R self g = (Inl e, g') \<Longrightarrow> error_class e = ''ValueError''"
  by (auto simp: simulate_licensing_revenue_def Inl_simps
      dest: sample_integer_Inl sample_normal_Inl)

lemma costs_Inl:
  "simulate_costs R self g = (Inl e, g') \<Longrightarrow> error_class e = ''ValueError''"
  by (auto simp: simulate_costs_def Inl_simps dest: sample_normal_Inl)

lemma market_Inl: "apply_market_factors R self base g = (Inl e, g') \<longleftrightarrow> False"
  by (simp add: apply_market_factors_def Inl_simps)

lemma run_table_Inl:
  "run_table R self g = (Inl e, g') \<Longrightarrow> error_class e = ''ValueError''"
  by (auto simp: run_table_def Inl_simps market_Inl
      dest: subscription_Inl api_Inl project_Inl licensing_Inl costs_Inl)

lemma default_sampling_ok: "sampling_ok default_parameters"
  by (simp add: sampling_ok_def int_range_ok_def normal_range_ok_def default_parameters_def)

subsection \<open>Evaluation on the concrete instances\<close>

lemmas eval_defs = run_simulation_def run_table_def simulate_subscription_revenue_def
  simulate_api_revenue_def simulate_project_revenue_def simulate_licensing_revenue_def
  simulate_costs_def apply_market_factors_def bindM_def returnM_def
  sample_uniform_def sample_integer_def sample_normal_bounded_def counter_rng_def
  init_def default_parameters_def Let_def numeral_2_eq_2
  vadd_def vsub_def vmul_def vdiv_def smul_def sdiv_def rsub_def iadd_def as_float_def wrap64_def
  fsub_def np_clip_def fmaximum_def fminimum_def inf_of_sign_def

lemma demo_run: "fst (run_simulation counter_rng demo_engine 0) = Inr demo_table"
proof -
  have "sampling_ok (params demo_engine)"
    by (simp add: demo_engine_def init_def default_sampling_ok)
  then obtain t where "fst (run_simulation counter_rng demo_engine 0) = Inr t"
    using run_simulation_ok_iff [of counter_rng demo_engine 0] by blast
  then show ?thesis by (simp add: demo_table_def)
qed

lemma demo_n: "1 < n_simulations demo_engine"
  by (simp add: demo_engine_def init_def)

section \<open>What a run reads of the engine\<close>

lemma samplers_cong:
  assumes "n_simulations a = n_simulations b"
  shows "sample_uniform R a = sample_uniform R b"
    and "sample_integer R a = sample_integer R b"
    and "sample_normal_bounded R a = sample_normal_bounded R b"
  unfolding fun_eq_iff sample_uniform_def sample_integer_def sample_normal_bounded_def assms
  by simp_all

lemma run_table_cong:
  assumes p: "params a = params b" and n: "n_simulations a = n_simulations b"
  shows "run_table R a = run_table R b"
proof -
  note c = samplers_cong [OF n, of R]
  have "simulate_subscription_revenue R a = simulate_subscription_revenue R b"
    by (simp add: simulate_subscription_revenue_def c p)
  moreover have "simulate_api_revenue R a = simulate_api_revenue R b"
    by (simp add: simulate_api_revenue_def c p)
  moreover have "simulate_project_revenue R a = simulate_project_revenue R b"
    by (simp add: simulate_project_revenue_def c p)
  moreover have "simulate_licensing_revenue R a = simulate_licensing_revenue R b"
    by (simp add: simulate_licensing_revenue_def c p)
  moreover have "simulate_costs R a = simulate_costs R b"
    by (simp add: simulate_costs_def c p)
  moreover have "apply_market_factors R a = apply_market_factors R b"
    by (simp add: fun_eq_iff apply_market_factors_def c p)
  ultimately show ?thesis
    by (simp add: run_table_def)
qed

section \<open>A degenerate range under the skew transform\<close>

lemma project_degenerate:
  assumes sim: "simulate_project_revenue R self g = (Inr prj, g')"
    and pv: "project_value (params self) = (v, v)" and i: "i < n_simulations self"
  shows "total_projects_p prj ! i = NaN"
proof -
  from sim pv obtain num pvals g1 where
    num: "sample_integer R self (projects_per_month (params self)) g = (Inr num, g1)" and
    pvals: "sample_normal_bounded R self (v, v) (2 / 10) g1 = (Inr pvals, g')" and
    prj: "total_projects_p prj = vmul (as_float num) pvals"
    by (auto simp: simulate_project_revenue_def bindM_Inr returnM_Inr Let_def)
  have "pvals = replicate (n_simulations self) NaN"
    using sample_normal_degenerate [of "2 / 10" R self v g1] pvals by simp
  moreover have "length num = n_simulations self"
    using sample_integer_length [OF num] .
  ultimately show ?thesis
    using i by (simp add: prj nth_ops length_ops nan_absorbs)
qed

lemma market_nth:
  assumes m: "apply_market_factors R self base g = (Inr adj, g')"
    and len: "length base = n_simulations self" and i: "i < n_simulations self"
  shows "\<exists>seasonality g1 growth g2 efficiency g3 baseball g4 football g5 basketball g6 track.
      sample_uniform R self (seasonality_factor (params self)) g = (Inr seasonality, g1) \<and>
      sample_uniform R self (market_growth_rate (params self)) g1 = (Inr growth, g2) \<and>
      sample_uniform R self (platform_efficiency (params self)) g2 = (Inr efficiency, g3) \<and>
      sample_uniform R self (baseball_impact (params self)) g3 = (Inr baseball, g4) \<and>
      sample_uniform R self (football_impact (params self)) g4 = (Inr football, g5) \<and>
      sample_uniform R self (basketball_impact (params self)) g5 = (Inr basketball, g6) \<and>
      sample_uniform R self (track_field_impact (params self)) g6 = (Inr track, g') \<and>
      adj ! i =
        fmul (fmul (fmul (fmul (base ! i) (seasonality ! i)) (growth ! i)) (efficiency ! i))
          (fadd (fadd (fadd (fmul (baseball ! i) (Fin (35 / 100)))
                            (fmul (football ! i) (Fin (30 / 100))))
                      (fmul (basketball ! i) (Fin (25 / 100))))
                (fmul (track ! i) (Fin (10 / 100))))"
proof -
  from m obtain seasonality g1 growth g2 efficiency g3 baseball g4 football g5 basketball g6 track
    where s:
      "sample_uniform R self (seasonality_factor (params self)) g = (Inr seasonality, g1)"
      "sample_uniform R self (market_growth_rate (params self)) g1 = (Inr growth, g2)"
      "sample_uniform R self (platform_efficiency (params self)) g2 = (Inr efficiency, g3)"
      "sample_uniform R self (baseball_impact (params self)) g3 = (Inr baseball, g4)"
      "sample_uniform R self (football_impact (params self)) g4 = (Inr football, g5)"
      "sample_uniform R self (basketball_impact (params self)) g5 = (Inr basketball, g6)"
      "sample_uniform R self (track_field_impact (params self)) g6 = (Inr track, g')"
    and adj: "adj =
        vmul (vmul (vmul (vmul base seasonality) growth) efficiency)
          (vadd (vadd (vadd (smul baseball (35 / 100)) (smul football (30 / 100)))
                   (smul basketball (25 / 100))) (smul track (10 / 100)))"
    by (auto simp: apply_market_factors_def bindM_Inr returnM_Inr Let_def)
  note l = s [THEN sample_uniform_length]
  have "adj ! i =
        fmul (fmul (fmul (fmul (base ! i) (seasonality ! i)) (growth ! i)) (efficiency ! i))
          (fadd (fadd (fadd (fmul (baseball ! i) (Fin (35 / 100)))
                            (fmul (football ! i) (Fin (30 / 100))))
                      (fmul (basketball ! i) (Fin (25 / 100))))
                (fmul (track ! i) (Fin (10 / 100))))"
    using i len l by (simp add: adj nth_ops length_ops)
  with s show ?thesis by blast
qed

lemma market_nan:
  assumes m: "apply_market_factors R self base g = (Inr adj, g')"
    and len: "length base = n_simulations self" and i: "i < n_simulations self"
    and nan: "base ! i = NaN"
  shows "adj ! i = NaN"
  using market_nth [OF m len i] nan by (auto simp: nan_absorbs)

lemma run_degenerate_project:
  assumes rt: "run_table R self g = (Inr t, g')"
    and pv: "project_value (params self) = (v, v)" and i: "i < n_simulations self"
  shows "project_revenue t ! i = NaN" and "gross_revenue t ! i = NaN"
    and "adjusted_revenue t ! i = NaN" and "gross_profit t ! i = NaN"
    and "profit_margin t ! i = NaN" and "roi_percent t ! i = NaN"
    and "hours_saved t ! i = NaN"
proof -
  from rt obtain sub api prj lic costs g1 g2 g3 g4 g5 where f:
    "simulate_subscription_revenue R self g = (Inr sub, g1)"
    "simulate_api_revenue R self g1 = (Inr api, g2)"
    "simulate_project_revenue R self g2 = (Inr prj, g3)"
    "simulate_licensing_revenue R self g3 = (Inr lic, g4)"
    "apply_market_factors R self (gross_revenue t) g4 = (Inr (adjusted_revenue t), g5)"
    "simulate_costs R self g5 = (Inr costs, g')"
    "gross_revenue t =
       vadd (vadd (vadd (total_subscription_s sub) (total_api_a api)) (total_projects_p prj))
         (monthly_licensing_l lic)"
    "project_revenue t = total_projects_p prj"
    by (rule run_table_fields)
  have p: "total_projects_p prj ! i = NaN"
    using project_degenerate [OF f(3) pv i] .
  show "project_revenue t ! i = NaN" by (simp add: f(8) p)
  show gr: "gross_revenue t ! i = NaN"
    using i subscription_length(1) [OF f(1)] api_length [OF f(2)] project_length [OF f(3)]
      licensing_length [OF f(4)] p
    by (simp add: f(7) nth_ops length_ops nan_absorbs)
  show adj: "adjusted_revenue t ! i = NaN"
    using market_nan [OF f(5) run_table_lengths(1) [OF rt] i gr] .
  show gp: "gross_profit t ! i = NaN"
    using run_table_nth(1) [OF rt i] adj by (simp add: nan_absorbs)
  show "profit_margin t ! i = NaN"
    using run_table_nth(2) [OF rt i] gp by (simp add: nan_absorbs)
  show "roi_percent t ! i = NaN"
    using run_table_nth(3) [OF rt i] gp by (simp add: nan_absorbs)
  show "hours_saved t ! i = NaN"
    using run_table_nth(4) [OF rt i] gp by (simp add: nan_absorbs)
qed


text \<open>
  Claim C10.  For a degenerate range \<open>(v, v)\<close> the standard deviation is zero; with a
  nonzero skew the transform divides zero by zero, every sample becomes NaN and stays NaN
  through the clamp, so no sample lies in \<open>[v, v]\<close>.  When the project value has such a
  range (its skew is \<open>0.2\<close>), every row of the table has NaN project revenue, gross and
  adjusted revenue, gross profit, profit margin, ROI and hours saved.
\<close>

theorem degenerate_skewed_range_yields_nan:
  assumes skew: "skew \<noteq> 0"
    and pv: "project_value (params self) = (v, v)"
    and run: "fst (run_simulation R self g) = Inr t"
    and i: "i < n_simulations self"
  shows "(\<exists>pop. fst (sample_normal_bounded R self (v, v) skew g0) = Inr pop \<and>
            length pop = n_simulations self \<and> pop ! i = NaN \<and> \<not> in_range v v (pop ! i)) \<and>
         project_revenue t ! i = NaN \<and> gross_revenue t ! i = NaN \<and>
         adjusted_revenue t ! i = NaN \<and> gross_profit t ! i = NaN \<and>
         profit_margin t ! i = NaN \<and> roi_percent t ! i = NaN \<and> hours_saved t ! i = NaN \<and>
         \<not> is_finite (gross_profit t ! i) \<and> \<not> is_finite (profit_margin t ! i) \<and>
         \<not> is_finite (roi_percent t ! i)"
proof -
  obtain g' where rt: "run_table R self g = (Inr t, g')"
    using run_simulation_Inr [OF run] ..
  have "fst (sample_normal_bounded R self (v, v) skew g0) =
          Inr (replicate (n_simulations self) NaN)"
    using sample_normal_degenerate [OF skew] .
  then have 1: "\<exists>pop. fst (sample_normal_bounded R self (v, v) skew g0) = Inr pop \<and>
            length pop = n_simulations self \<and> pop ! i = NaN \<and> \<not> in_range v v (pop ! i)"
    using i by (simp add: in_range_def)
  show ?thesis
    using 1 run_degenerate_project [OF rt pv i] by simp
qed

lemma degenerate_run: "fst (run_simulation counter_rng degenerate_engine 0) = Inr degenerate_table"
proof -
  have "sampling_ok (params degenerate_engine)"
    by (simp add: degenerate_engine_def init_def sampling_ok_def int_range_ok_def
        normal_range_ok_def default_parameters_def)
  then obtain t where "fst (run_simulation counter_rng degenerate_engine 0) = Inr t"
    using run_simulation_ok_iff [of counter_rng degenerate_engine 0] by blast
  then show ?thesis by (simp add: degenerate_table_def)
qed

theorem degenerate_skewed_range_yields_nan_witness:
  "(2 / 10 :: real) \<noteq> 0 \<and>
   project_value (params degenerate_engine) = (5000, 5000) \<and>
   fst (run_simulation counter_rng degenerate_engine 0) = Inr degenerate_table \<and>
   1 < n_simulations degenerate_engine \<and>
   fst (sample_normal_bounded counter_rng degenerate_engine (5000, 5000) (2 / 10) 0) =
     Inr [NaN, NaN] \<and>
   project_revenue degenerate_table ! 1 = NaN \<and> gross_revenue degenerate_table ! 1 = NaN \<and>
   adjusted_revenue degenerate_table ! 1 = NaN \<and> gross_profit degenerate_table ! 1 = NaN \<and>
   profit_margin degenerate_table ! 1 = NaN \<and> roi_percent degenerate_table ! 1 = NaN \<and>
   hours_saved degenerate_table ! 1 = NaN"
proof -
  have s: "(2 / 10 :: real) \<noteq> 0" by simp
  have pv: "project_value (params degenerate_engine) = (5000, 5000)"
    by (simp add: degenerate_engine_def init_def)
  have n: "1 < n_simulations degenerate_engine"
    by (simp add: degenerate_engine_def init_def)
  have e: "fst (sample_normal_bounded counter_rng degenerate_engine (5000, 5000) (2 / 10) 0) =
     Inr [NaN, NaN]"
    by (simp add: degenerate_engine_def eval_defs)
  show ?thesis
    using degenerate_skewed_range_yields_nan [OF s pv degenerate_run n, of 0] s pv n e
      degenerate_run
    by simp
qed

section \<open>Range containment\<close>

text \<open>
  Claim C3.  The uniform and the integer strategy stay in \<open>[low, high]\<close>
  (\<open>sample_uniform_range\<close>, \<open>sample_integer_range\<close>), and so does the bounded normal
  strategy when \<open>low < high\<close> or the skew is zero (\<open>sample_normal_range\<close>).  On the range
  \<open>(5000, 5000)\<close> with the skew \<open>0.2\<close> of the project value, however, the sample that
  \<open>sample_normal_bounded\<close> returns after its clamp is NaN, which lies in no interval.
\<close>

theorem bounded_normal_escapes_range:
  "fst (sample_normal_bounded R (init p 1) (5000, 5000) (2 / 10) g) = Inr [NaN] \<and>
   \<not> in_range 5000 5000 NaN"
  using sample_normal_degenerate [of "2 / 10" R "init p 1" 5000 g]
  by (simp add: init_def in_range_def)

section \<open>Churn\<close>

lemma wrap64_id: "- (2 ^ 63) \<le> k \<Longrightarrow> k < 2 ^ 63 \<Longrightarrow> wrap64 k = k"
  by (simp add: wrap64_def)

lemma subscription_nth:
  assumes s: "simulate_subscription_revenue R self g = (Inr sub, g')"
    and i: "i < n_simulations self"
  shows "\<exists>basic_subs g1 pro_subs g2 enterprise_subs g3 basic_prices g4 pro_prices g5
            enterprise_prices g6 churn.
      sample_integer R self (basic_subscribers (params self)) g = (Inr basic_subs, g1) \<and>
      sample_integer R self (pro_subscribers (params self)) g1 = (Inr pro_subs, g2) \<and>
      sample_integer R self (enterprise_subscribers (params self)) g2 =
        (Inr enterprise_subs, g3) \<and>
      sample_uniform R self (basic_price (params self)) g3 = (Inr basic_prices, g4) \<and>
      sample_uniform R self (pro_price (params self)) g4 = (Inr pro_prices, g5) \<and>
      sample_uniform R self (enterprise_price (params self)) g5 = (Inr enterprise_prices, g6) \<and>
      sample_uniform R self (churn_rate (params self)) g6 = (Inr churn, g') \<and>
      basic_s sub ! i =
        fmul (fmul (Fin (of_int (basic_subs ! i))) (basic_prices ! i)) (fsub (Fin 1) (churn ! i)) \<and>
      pro_s sub ! i =
        fmul (fmul (Fin (of_int (pro_subs ! i))) (pro_prices ! i)) (fsub (Fin 1) (churn ! i)) \<and>
      enterprise_s sub ! i =
        fmul (fmul (Fin (of_int (enterprise_subs ! i))) (enterprise_prices ! i))
          (fsub (Fin 1) (churn ! i)) \<and>
      total_subscribers_s sub ! i =
        fmul (Fin (of_int (wrap64 (wrap64 (basic_subs ! i + pro_subs ! i) + enterprise_subs ! i))))
          (fsub (Fin 1) (churn ! i))"
proof -
  from s obtain basic_subs g1 pro_subs g2 enterprise_subs g3 basic_prices g4 pro_prices g5
      enterprise_prices g6 churn
    where d:
      "sample_integer R self (basic_subscribers (params self)) g = (Inr basic_subs, g1)"
      "sample_integer R self (pro_subscribers (params self)) g1 = (Inr pro_subs, g2)"
      "sample_integer R self (enterprise_subscribers (params self)) g2 =
        (Inr enterprise_subs, g3)"
    and u:
      "sample_uniform R self (basic_price (params self)) g3 = (Inr basic_prices, g4)"
      "sample_uniform R self (pro_price (params self)) g4 = (Inr pro_prices, g5)"
      "sample_uniform R self (enterprise_price (params self)) g5 = (Inr enterprise_prices, g6)"
      "sample_uniform R self (churn_rate (params self)) g6 = (Inr churn, g')"
    and sub: "sub = \<lparr>
        basic_s = vmul (vmul (as_float basic_subs) basic_prices) (rsub 1 churn),
        pro_s = vmul (vmul (as_float pro_subs) pro_prices) (rsub 1 churn),
        enterprise_s = vmul (vmul (as_float enterprise_subs) enterprise_prices) (rsub 1 churn),
        total_subscription_s =
          vadd (vadd (vmul (vmul (as_float basic_subs) basic_prices) (rsub 1 churn))
                  (vmul (vmul (as_float pro_subs) pro_prices) (rsub 1 churn)))
            (vmul (vmul (as_float enterprise_subs) enterprise_prices) (rsub 1 churn)),
        total_subscribers_s =
          vmul (as_float (iadd (iadd basic_subs pro_subs) enterprise_subs)) (rsub 1 churn) \<rparr>"
    by (auto simp: simulate_subscription_revenue_def bindM_Inr returnM_Inr Let_def)
  note l = d [THEN sample_integer_length] u [THEN sample_uniform_length]
  have n: "basic_s sub ! i =
        fmul (fmul (Fin (of_int (basic_subs ! i))) (basic_prices ! i)) (fsub (Fin 1) (churn ! i))"
      "pro_s sub ! i =
        fmul (fmul (Fin (of_int (pro_subs ! i))) (pro_prices ! i)) (fsub (Fin 1) (churn ! i))"
      "enterprise_s sub ! i =
        fmul (fmul (Fin (of_int (enterprise_subs ! i))) (enterprise_prices ! i))
          (fsub (Fin 1) (churn ! i))"
      "total_subscribers_s sub ! i =
        fmul (Fin (of_int (wrap64 (wrap64 (basic_subs ! i + pro_subs ! i) + enterprise_subs ! i))))
          (fsub (Fin 1) (churn ! i))"
    using i l by (simp_all add: sub nth_ops length_ops iadd_def)
  show ?thesis
    by (intro exI conjI) (rule d u n)+
qed

lemma counter_rng_ok: "rng_ok counter_rng"
  by (simp add: rng_ok_def counter_rng_def)

lemma churn_run: "fst (run_simulation counter_rng churn_engine 0) = Inr churn_table"
proof -
  have "sampling_ok (params churn_engine)"
    by (simp add: churn_engine_def init_def sampling_ok_def int_range_ok_def
        normal_range_ok_def default_parameters_def)
  then obtain t where "fst (run_simulation counter_rng churn_engine 0) = Inr t"
    using run_simulation_ok_iff [of counter_rng churn_engine 0] by blast
  then show ?thesis by (simp add: churn_table_def)
qed

lemma churn_subscription:
  "fst (simulate_subscription_revenue counter_rng churn_engine 0) = Inr sub \<Longrightarrow>
   total_subscribers_s sub = [Fin (78 * (1 - 11 / 4))]"
  by (auto simp: churn_engine_def eval_defs)

text \<open>
  Claim C6, as stated, fails: the retention \<open>1 - churn\<close> is neither clamped nor guarded.
  With the churn range \<open>(2, 3)\<close> the churn drawn for the trial is \<open>2.75\<close>, the retention
  is \<open>-1.75\<close>, and the \<open>78\<close> subscribers drawn become \<open>total_subscribers = -136.5\<close>.
\<close>

theorem churn_unclamped_counterexample:
  "fst (sample_uniform counter_rng churn_engine (churn_rate (params churn_engine)) 6) =
     Inr [Fin (11 / 4)] \<and>
   (1 - 11 / 4 :: real) < 0 \<and>
   fst (run_simulation counter_rng churn_engine 0) = Inr churn_table \<and>
   total_subscribers churn_table = [Fin (78 * (1 - 11 / 4))] \<and>
   \<not> fle (Fin 0) (total_subscribers churn_table ! 0)"
proof -
  obtain g' where rt: "run_table counter_rng churn_engine 0 = (Inr churn_table, g')"
    using run_simulation_Inr [OF churn_run] ..
  from rt obtain sub g1 where
    s: "simulate_subscription_revenue counter_rng churn_engine 0 = (Inr sub, g1)" and
    ts: "total_subscribers churn_table = total_subscribers_s sub"
    by (rule run_table_fields)
  have "total_subscribers churn_table = [Fin (78 * (1 - 11 / 4))]"
    using churn_subscription [of sub] s ts by simp
  moreover have "fst (sample_uniform counter_rng churn_engine (churn_rate (params churn_engine)) 6) =
     Inr [Fin (11 / 4)]"
    by (simp add: churn_engine_def eval_defs)
  ultimately show ?thesis using churn_run by simp
qed

text \<open>
  Claim C6, amended.  When the churn range lies in \<open>[0, 1]\<close> (as the default
  \<open>[0.02, 0.08]\<close> does) and the subscriber ranges are non-negative (and their upper bounds
  sum to less than \<open>2^63\<close>), then in every row the retention \<open>1 - churn\<close> is in
  \<open>[0, 1]\<close>, the one churn sample of the row scales all three tiers, and
  \<open>total_subscribers\<close> is the unscaled sum of the three subscriber counts times the
  retention, hence at most that sum.
\<close>

theorem churn_bound_in_unit_range:
  assumes ok: "rng_ok R"
    and c0: "0 \<le> fst (churn_rate (params self))"
    and c1: "fst (churn_rate (params self)) \<le> snd (churn_rate (params self))"
    and c2: "snd (churn_rate (params self)) \<le> 1"
    and b0: "0 \<le> fst (basic_subscribers (params self))"
    and p0: "0 \<le> fst (pro_subscribers (params self))"
    and e0: "0 \<le> fst (enterprise_subscribers (params self))"
    and nowrap: "snd (basic_subscribers (params self)) + snd (pro_subscribers (params self)) +
                 snd (enterprise_subscribers (params self)) < 2 ^ 63"
    and run: "fst (run_simulation R self g) = Inr t"
    and i: "i < n_simulations self"
  shows "\<exists>sub basic_subs g1 pro_subs g2 enterprise_subs g3 basic_prices g4 pro_prices g5
            enterprise_prices g6 churn g7 c.
      simulate_subscription_revenue R self g = (Inr sub, g7) \<and>
      total_subscribers t = total_subscribers_s sub \<and>
      sample_integer R self (basic_subscribers (params self)) g = (Inr basic_subs, g1) \<and>
      sample_integer R self (pro_subscribers (params self)) g1 = (Inr pro_subs, g2) \<and>
      sample_integer R self (enterprise_subscribers (params self)) g2 =
        (Inr enterprise_subs, g3) \<and>
      sample_uniform R self (basic_price (params self)) g3 = (Inr basic_prices, g4) \<and>
      sample_uniform R self (pro_price (params self)) g4 = (Inr pro_prices, g5) \<and>
      sample_uniform R self (enterprise_price (params self)) g5 = (Inr enterprise_prices, g6) \<and>
      sample_uniform R self (churn_rate (params self)) g6 = (Inr churn, g7) \<and>
      churn ! i = Fin c \<and> 0 \<le> 1 - c \<and> 1 - c \<le> 1 \<and>
      basic_s sub ! i =
        fmul (fmul (Fin (of_int (basic_subs ! i))) (basic_prices ! i)) (Fin (1 - c)) \<and>
      pro_s sub ! i =
        fmul (fmul (Fin (of_int (pro_subs ! i))) (pro_prices ! i)) (Fin (1 - c)) \<and>
      enterprise_s sub ! i =
        fmul (fmul (Fin (of_int (enterprise_subs ! i))) (enterprise_prices ! i)) (Fin (1 - c)) \<and>
      total_subscribers t ! i =
        Fin (of_int (basic_subs ! i + pro_subs ! i + enterprise_subs ! i) * (1 - c)) \<and>
      fle (total_subscribers t ! i)
        (Fin (of_int (basic_subs ! i + pro_subs ! i + enterprise_subs ! i)))"
proof -
  obtain g' where rt: "run_table R self g = (Inr t, g')"
    using run_simulation_Inr [OF run] ..
  from rt obtain sub g7 where
    s: "simulate_subscription_revenue R self g = (Inr sub, g7)" and
    ts: "total_subscribers t = total_subscribers_s sub"
    by (rule run_table_fields)
  from subscription_nth [OF s i]
  obtain basic_subs g1 pro_subs g2 enterprise_subs g3 basic_prices g4 pro_prices g5
      enterprise_prices g6 churn
    where d:
      "sample_integer R self (basic_subscribers (params self)) g = (Inr basic_subs, g1)"
      "sample_integer R self (pro_subscribers (params self)) g1 = (Inr pro_subs, g2)"
      "sample_integer R self (enterprise_subscribers (params self)) g2 =
        (Inr enterprise_subs, g3)"
    and u:
      "sample_uniform R self (basic_price (params self)) g3 = (Inr basic_prices, g4)"
      "sample_uniform R self (pro_price (params self)) g4 = (Inr pro_prices, g5)"
      "sample_uniform R self (enterprise_price (params self)) g5 = (Inr enterprise_prices, g6)"
    and ch: "sample_uniform R self (churn_rate (params self)) g6 = (Inr churn, g7)"
    and n: "basic_s sub ! i =
        fmul (fmul (Fin (of_int (basic_subs ! i))) (basic_prices ! i)) (fsub (Fin 1) (churn ! i))"
      "pro_s sub ! i =
        fmul (fmul (Fin (of_int (pro_subs ! i))) (pro_prices ! i)) (fsub (Fin 1) (churn ! i))"
      "enterprise_s sub ! i =
        fmul (fmul (Fin (of_int (enterprise_subs ! i))) (enterprise_prices ! i))
          (fsub (Fin 1) (churn ! i))"
    and tot: "total_subscribers_s sub ! i =
        fmul (Fin (of_int (wrap64 (wrap64 (basic_subs ! i + pro_subs ! i) + enterprise_subs ! i))))
          (fsub (Fin 1) (churn ! i))"
    by blast
  have li: "i < length basic_subs" "i < length pro_subs" "i < length enterprise_subs"
    "i < length churn"
    using i d [THEN sample_integer_length] sample_uniform_length [OF ch] by simp_all
  have ch': "sample_uniform R self (fst (churn_rate (params self)), snd (churn_rate (params self)))
      g6 = (Inr churn, g7)"
    using ch by simp
  obtain c where c: "churn ! i = Fin c"
    and cr: "fst (churn_rate (params self)) \<le> c" "c \<le> snd (churn_rate (params self))"
    using sample_uniform_range [OF ok c1 ch', of "churn ! i"] li by auto
  have d': "sample_integer R self
        (fst (basic_subscribers (params self)), snd (basic_subscribers (params self))) g =
        (Inr basic_subs, g1)"
      "sample_integer R self
        (fst (pro_subscribers (params self)), snd (pro_subscribers (params self))) g1 =
        (Inr pro_subs, g2)"
      "sample_integer R self
        (fst (enterprise_subscribers (params self)), snd (enterprise_subscribers (params self)))
        g2 = (Inr enterprise_subs, g3)"
    using d by simp_all
  have rb: "fst (basic_subscribers (params self)) \<le> basic_subs ! i"
      "basic_subs ! i \<le> snd (basic_subscribers (params self))"
    using sample_integer_range [OF ok d'(1), of "basic_subs ! i"] li by auto
  have rp: "fst (pro_subscribers (params self)) \<le> pro_subs ! i"
      "pro_subs ! i \<le> snd (pro_subscribers (params self))"
    using sample_integer_range [OF ok d'(2), of "pro_subs ! i"] li by auto
  have re: "fst (enterprise_subscribers (params self)) \<le> enterprise_subs ! i"
      "enterprise_subs ! i \<le> snd (enterprise_subscribers (params self))"
    using sample_integer_range [OF ok d'(3), of "enterprise_subs ! i"] li by auto
  have w: "wrap64 (wrap64 (basic_subs ! i + pro_subs ! i) + enterprise_subs ! i) =
      basic_subs ! i + pro_subs ! i + enterprise_subs ! i"
    using rb rp re b0 p0 e0 nowrap by (simp add: wrap64_id)
  have nn: "0 \<le> basic_subs ! i + pro_subs ! i + enterprise_subs ! i"
    using rb rp re b0 p0 e0 by linarith
  have r01: "0 \<le> 1 - c" "1 - c \<le> 1"
    using cr c0 c2 by linarith+
  have t1: "total_subscribers t ! i =
        Fin (of_int (basic_subs ! i + pro_subs ! i + enterprise_subs ! i) * (1 - c))"
    by (simp add: ts tot w c fsub_def)
  have "real_of_int (basic_subs ! i + pro_subs ! i + enterprise_subs ! i) * (1 - c)
      \<le> real_of_int (basic_subs ! i + pro_subs ! i + enterprise_subs ! i)"
    using nn r01 by (intro mult_left_le) simp_all
  then have t2: "fle (total_subscribers t ! i)
        (Fin (of_int (basic_subs ! i + pro_subs ! i + enterprise_subs ! i)))"
    by (simp add: t1)
  have n': "basic_s sub ! i =
        fmul (fmul (Fin (of_int (basic_subs ! i))) (basic_prices ! i)) (Fin (1 - c))"
      "pro_s sub ! i =
        fmul (fmul (Fin (of_int (pro_subs ! i))) (pro_prices ! i)) (Fin (1 - c))"
      "enterprise_s sub ! i =
        fmul (fmul (Fin (of_int (enterprise_subs ! i))) (enterprise_prices ! i)) (Fin (1 - c))"
    using n by (simp_all add: c fsub_def)
  show ?thesis
    by (intro exI conjI) (rule s ts d u ch c r01 n' t1 t2)+
qed

theorem churn_bound_in_unit_range_witness:
  "rng_ok counter_rng \<and>
   0 \<le> fst (churn_rate (params demo_engine)) \<and>
   fst (churn_rate (params demo_engine)) \<le> snd (churn_rate (params demo_engine)) \<and>
   snd (churn_rate (params demo_engine)) \<le> 1 \<and>
   0 \<le> fst (basic_subscribers (params demo_engine)) \<and>
   0 \<le> fst (pro_subscribers (params demo_engine)) \<and>
   0 \<le> fst (enterprise_subscribers (params demo_engine)) \<and>
   snd (basic_subscribers (params demo_engine)) + snd (pro_subscribers (params demo_engine)) +
     snd (enterprise_subscribers (params demo_engine)) < 2 ^ 63 \<and>
   fst (run_simulation counter_rng demo_engine 0) = Inr demo_table \<and>
   1 < n_simulations demo_engine \<and>
   (\<exists>k c. total_subscribers demo_table ! 1 = Fin (of_int k * (1 - c)) \<and>
          0 \<le> 1 - c \<and> 1 - c \<le> 1 \<and> fle (total_subscribers demo_table ! 1) (Fin (of_int k)))"
proof -
  have h: "0 \<le> fst (churn_rate (params demo_engine))"
    "fst (churn_rate (params demo_engine)) \<le> snd (churn_rate (params demo_engine))"
    "snd (churn_rate (params demo_engine)) \<le> 1"
    "0 \<le> fst (basic_subscribers (params demo_engine))"
    "0 \<le> fst (pro_subscribers (params demo_engine))"
    "0 \<le> fst (enterprise_subscribers (params demo_engine))"
    "snd (basic_subscribers (params demo_engine)) + snd (pro_subscribers (params demo_engine)) +
     snd (enterprise_subscribers (params demo_engine)) < 2 ^ 63"
    by (simp_all add: demo_engine_def init_def default_parameters_def)
  show ?thesis
    using churn_bound_in_unit_range [OF counter_rng_ok h demo_run demo_n] counter_rng_ok h
      demo_run demo_n
    by (intro conjI; blast)
qed

section \<open>Range validation\<close>

lemma reversed_ok: "sampling_ok (params reversed_engine)"
  by (simp add: reversed_engine_def init_def sampling_ok_def int_range_ok_def
      normal_range_ok_def default_parameters_def)

lemma reversed_run: "fst (run_simulation counter_rng reversed_engine 0) = Inr reversed_table"
proof -
  obtain t where "fst (run_simulation counter_rng reversed_engine 0) = Inr t"
    using run_simulation_ok_iff [of counter_rng reversed_engine 0] reversed_ok by blast
  then show ?thesis by (simp add: reversed_table_def)
qed

lemma run_simulation_fails:
  assumes "\<not> sampling_ok (params self)" and "0 < n_simulations self"
  shows "(\<exists>msg. fst (run_simulation R self g) = Inl (ValueError msg)) \<and>
         fst (snd (run_simulation R self g)) = self"
proof -
  from assms have no: "\<And>t. fst (run_simulation R self g) \<noteq> Inr t"
    using run_simulation_ok_iff [of R self g] by auto
  obtain r g' where rt: "run_table R self g = (r, g')" by (cases "run_table R self g")
  show ?thesis
  proof (cases r)
    case (Inl e)
    with rt have "error_class e = ''ValueError''" by (auto dest: run_table_Inl)
    then have "e = ValueError (error_message e)" by (cases e) simp
    with Inl rt show ?thesis by (auto simp: run_simulation_def)
  next
    case (Inr t)
    with rt no [of t] show ?thesis by (simp add: run_simulation_def)
  qed
qed

text \<open>
  Claim C5, as stated, fails: nothing validates the ranges.  The parameter set with the
  reversed range \<open>basic_price = (49, 29)\<close> is constructed, the engine is built on it, the
  price sample is \<open>41.5\<close> and the run returns a table: no error is raised.
\<close>

theorem reversed_range_accepted_counterexample:
  "snd (basic_price (params reversed_engine)) < fst (basic_price (params reversed_engine)) \<and>
   fst (sample_uniform counter_rng reversed_engine (basic_price (params reversed_engine)) 3) =
     Inr [Fin (83 / 2)] \<and>
   fst (run_simulation counter_rng reversed_engine 0) = Inr reversed_table"
proof -
  have "fst (sample_uniform counter_rng reversed_engine (basic_price (params reversed_engine)) 3) =
     Inr [Fin (83 / 2)]"
    by (simp add: reversed_engine_def eval_defs)
  moreover have "snd (basic_price (params reversed_engine)) < fst (basic_price (params reversed_engine))"
    by (simp add: reversed_engine_def init_def)
  ultimately show ?thesis using reversed_run by simp
qed

text \<open>
  Claim C5, amended.  Constructing the parameter set and the engine never fails and
  validates nothing.  A run on the default ranges returns a table.  A run returns a table
  whenever every integer-sampled range is non-empty (and within \<open>int64\<close>) and no
  bounded-normal range is reversed, whatever the uniformly sampled ranges are; otherwise
  (for at least one trial) it fails with the library's \<open>ValueError\<close> and leaves the
  engine unchanged.
\<close>

theorem range_checks_as_coded:
  "params (init p n) = p \<and>
   (\<exists>t. fst (run_simulation R (init default_parameters n) g) = Inr t) \<and>
   (sampling_ok (params self1) \<longrightarrow> (\<exists>t. fst (run_simulation R self1 g1) = Inr t)) \<and>
   (\<not> sampling_ok (params self2) \<and> 0 < n_simulations self2 \<longrightarrow>
      (\<exists>msg. fst (run_simulation R self2 g2) = Inl (ValueError msg)) \<and>
      fst (snd (run_simulation R self2 g2)) = self2)"
proof -
  have "sampling_ok (params (init default_parameters n))"
    by (simp add: init_def default_sampling_ok)
  then have "\<exists>t. fst (run_simulation R (init default_parameters n) g) = Inr t"
    using run_simulation_ok_iff [of R "init default_parameters n" g] by blast
  then show ?thesis
    using run_simulation_ok_iff [of R self1 g1] run_simulation_fails [of self2 R g2]
    by (simp add: init_def)
qed

theorem range_checks_as_coded_witness:
  "sampling_ok (params reversed_engine) \<and>
   fst (run_simulation counter_rng reversed_engine 0) = Inr reversed_table \<and>
   \<not> sampling_ok (params empty_range_engine) \<and> 0 < n_simulations empty_range_engine \<and>
   fst (run_simulation counter_rng empty_range_engine 0) = Inl (ValueError ''low >= high'') \<and>
   fst (snd (run_simulation counter_rng empty_range_engine 0)) = empty_range_engine"
proof -
  have a: "\<not> sampling_ok (params empty_range_engine)"
    by (simp add: empty_range_engine_def init_def sampling_ok_def int_range_ok_def
        default_parameters_def)
  have b: "0 < n_simulations empty_range_engine"
    by (simp add: empty_range_engine_def init_def)
  have c: "fst (run_simulation counter_rng empty_range_engine 0) = Inl (ValueError ''low >= high'')"
    by (simp add: empty_range_engine_def eval_defs)
  show ?thesis
    using range_checks_as_coded [of default_parameters 1 counter_rng 0 reversed_engine 0
        empty_range_engine 0] reversed_ok reversed_run a b c
    by simp
qed

section \<open>Zero ranges and infinite values\<close>












lemma run_simulation_stores:
  "fst (run_simulation R self g) = Inr t \<Longrightarrow>
   fst (snd (run_simulation R self g)) = self\<lparr>results := Some t\<rparr>"
  by (cases "run_table R self g") (auto simp: run_simulation_def split: sum.splits)


section \<open>Sensitivity ranking\<close>

lemma fle_total: "\<not> is_nan a \<Longrightarrow> \<not> is_nan b \<Longrightarrow> fle a b \<or> fle b a"
  by (cases a; cases b) auto

lemma fle_trans: "fle a b \<Longrightarrow> fle b c \<Longrightarrow> fle a c"
  by (cases a; cases b; cases c) auto

lemma set_insort_row: "set (insort_row x ys) = insert x (set ys)"
  by (induction ys) auto

lemma length_insort_row: "length (insort_row x ys) = Suc (length ys)"
  by (induction ys) auto

lemma sorted_insort_row:
  assumes "\<not> is_nan (Impact_Score x)" and "\<forall>y\<in>set ys. \<not> is_nan (Impact_Score y)"
    and "sorted_wrt (\<lambda>a b. fle (Impact_Score a) (Impact_Score b)) ys"
  shows "sorted_wrt (\<lambda>a b. fle (Impact_Score a) (Impact_Score b)) (insort_row x ys)"
  using assms
proof (induction ys)
  case Nil
  then show ?case by simp
next
  case (Cons y ys)
  show ?case
  proof (cases "fle (Impact_Score x) (Impact_Score y)")
    case True
    with Cons.prems show ?thesis by (auto intro: fle_trans)
  next
    case False
    with Cons.prems have yx: "fle (Impact_Score y) (Impact_Score x)"
      using fle_total [of "Impact_Score x" "Impact_Score y"] by simp
    with False Cons show ?thesis by (auto simp: set_insort_row)
  qed
qed

lemma foldr_insort_row:
  assumes "\<forall>y\<in>set xs. \<not> is_nan (Impact_Score y)"
  shows "sorted_wrt (\<lambda>a b. fle (Impact_Score a) (Impact_Score b)) (foldr insort_row xs []) \<and>
         set (foldr insort_row xs []) = set xs \<and>
         length (foldr insort_row xs []) = length xs"
  using assms
  by (induction xs) (auto simp: set_insort_row length_insort_row intro!: sorted_insort_row)

lemma sort_values_desc_props:
  "sorted_wrt (\<lambda>a b. is_nan (Impact_Score b) \<or> fle (Impact_Score b) (Impact_Score a))
     (sort_values_desc rows) \<and>
   set (sort_values_desc rows) = set rows \<and>
   length (sort_values_desc rows) = length rows"
proof -
  let ?ok = "filter (\<lambda>r. \<not> is_nan (Impact_Score r)) rows"
  let ?nan = "filter (\<lambda>r. is_nan (Impact_Score r)) rows"
  let ?s = "foldr insort_row (rev ?ok) []"
  have p: "sorted_wrt (\<lambda>a b. fle (Impact_Score a) (Impact_Score b)) ?s"
    "set ?s = set ?ok" "length ?s = length ?ok"
    using foldr_insort_row [of "rev ?ok"] by simp_all
  have 1: "sorted_wrt (\<lambda>a b. is_nan (Impact_Score b) \<or> fle (Impact_Score b) (Impact_Score a))
      (rev ?s)"
    using p(1) by (simp add: sorted_wrt_rev) (erule sorted_wrt_mono_rel [rotated], simp)
  have 2: "sorted_wrt (\<lambda>a b. is_nan (Impact_Score b) \<or> fle (Impact_Score b) (Impact_Score a))
      ?nan"
    by (rule sorted_wrt_mono_rel [where P = "\<lambda>a b. True"]) (auto simp: sorted_wrt_true)
  have "sorted_wrt (\<lambda>a b. is_nan (Impact_Score b) \<or> fle (Impact_Score b) (Impact_Score a))
      (rev ?s @ ?nan)"
    using 1 2 by (auto simp: sorted_wrt_append)
  moreover have "set (rev ?s @ ?nan) = set rows"
    using p(2) by auto
  moreover have "length (rev ?s @ ?nan) = length rows"
    using p(3) sum_length_filter_compl [of "\<lambda>r. \<not> is_nan (Impact_Score r)" rows] by simp
  ultimately show ?thesis by (simp add: sort_values_desc_def)
qed

text \<open>
  Claim C8.  On an engine that holds a table, \<open>sensitivity_analysis\<close> returns one row for
  each of the six factors; the impact score of a row is
  \<open>(std(column) / mean(column)) * |correlation|\<close>, the correlation being that of the
  column with \<open>monthly_value\<close>; and the rows are in descending order of the impact score
  (a row whose score is NaN, which compares with nothing, comes after every row that has
  a score).
\<close>

theorem sensitivity_scored_and_sorted:
  assumes "results self = Some t"
  shows "\<exists>rows. sensitivity_analysis self = (Inr rows, self) \<and>
     length rows = length factors \<and>
     set rows = sensitivity_entry t ` set factors \<and>
     (\<forall>r\<in>set rows. \<exists>f\<in>set factors.
         Factor r = title (replace_underscores (fst f)) \<and>
         Correlation r = pd_corr (monthly_value t) (snd f t) \<and>
         Impact_Score r =
           fmul (fdiv (pd_std (snd f t)) (pd_mean (snd f t)))
             (fabs (pd_corr (monthly_value t) (snd f t)))) \<and>
     sorted_wrt (\<lambda>a b. is_nan (Impact_Score b) \<or> fle (Impact_Score b) (Impact_Score a)) rows"
proof -
  let ?rows = "sort_values_desc (map (sensitivity_entry t) factors)"
  note p = sort_values_desc_props [of "map (sensitivity_entry t) factors"]
  have a: "sensitivity_analysis self = (Inr ?rows, self)"
    using assms by (simp add: sensitivity_analysis_def)
  have b: "length ?rows = length factors" using p by simp
  have c: "set ?rows = sensitivity_entry t ` set factors" using p by simp
  have d: "\<forall>r\<in>set ?rows. \<exists>f\<in>set factors.
         Factor r = title (replace_underscores (fst f)) \<and>
         Correlation r = pd_corr (monthly_value t) (snd f t) \<and>
         Impact_Score r =
           fmul (fdiv (pd_std (snd f t)) (pd_mean (snd f t)))
             (fabs (pd_corr (monthly_value t) (snd f t)))"
    unfolding c by (auto simp: sensitivity_entry_def Let_def)
  have e: "sorted_wrt (\<lambda>a b. is_nan (Impact_Score b) \<or> fle (Impact_Score b) (Impact_Score a))
      ?rows"
    using p by simp
  show ?thesis using a b c d e by blast
qed

theorem sensitivity_scored_and_sorted_witness:
  "results (demo_engine\<lparr>results := Some demo_table\<rparr>) = Some demo_table \<and>
   (\<exists>rows. sensitivity_analysis (demo_engine\<lparr>results := Some demo_table\<rparr>) =
             (Inr rows, demo_engine\<lparr>results := Some demo_table\<rparr>) \<and>
      length rows = 6 \<and>
      set rows = sensitivity_entry demo_table ` set factors \<and>
      sorted_wrt (\<lambda>a b. is_nan (Impact_Score b) \<or> fle (Impact_Score b) (Impact_Score a)) rows)"
proof -
  have h: "results (demo_engine\<lparr>results := Some demo_table\<rparr>) = Some demo_table" by simp
  have l: "length factors = 6" by (simp add: factors_def)
  show ?thesis
    using sensitivity_scored_and_sorted [OF h] h l by auto
qed

section \<open>Finite rows\<close>










section \<open>Concrete runs\<close>

lemma instance_ok:
  "sampling_ok (params demo_engine)" "sampling_ok (params zero_cost_engine)"
  "sampling_ok (params zero_both_engine)" "sampling_ok (params near_zero_engine)"
  "sampling_ok (params single_engine)" "sampling_ok (params stale_engine)"
  by (simp_all add: demo_engine_def zero_cost_engine_def zero_both_engine_def
      near_zero_engine_def single_engine_def stale_engine_def init_def sampling_ok_def
      int_range_ok_def normal_range_ok_def default_parameters_def)













lemma first_run_from_42:
  "map_sum id api_calls (fst (run_simulation counter_rng single_engine 42)) = Inr [100051]"
  by (simp add: single_engine_def eval_defs)

lemma first_run_leaves_68: "snd (snd (run_simulation counter_rng single_engine 42)) = 68"
  by (simp add: single_engine_def eval_defs)

lemma second_run_from_68:
  "map_sum id api_calls (fst (run_simulation counter_rng single_engine 68)) = Inr [100077]"
  by (simp add: single_engine_def eval_defs)




section \<open>Aggregation identities\<close>




section \<open>The market adjustment of a run\<close>




section \<open>Reproducibility\<close>

lemma run_simulation_keeps:
  "params (fst (snd (run_simulation R self g))) = params self"
  "n_simulations (fst (snd (run_simulation R self g))) = n_simulations self"
  by (auto simp: run_simulation_def split: prod.splits sum.splits)

text \<open>
  Claim C2, as stated, fails: a run takes no seed.  The module seeds the global generator
  once, at import, with \<open>42\<close>; the first run after that draws its call volume as
  \<open>100051\<close> and leaves the generator \<open>26\<close> draws further, and the second run of the same
  engine (same parameters, same trial count, under the same seed) draws \<open>100077\<close>: the
  two tables differ.
\<close>

theorem rerun_differs_counterexample:
  "np_random_seed counter_rng 42 0 = 42 \<and>
   map_sum id api_calls (fst (run_simulation counter_rng single_engine 42)) = Inr [100051] \<and>
   snd (snd (run_simulation counter_rng single_engine 42)) = 68 \<and>
   params (fst (snd (run_simulation counter_rng single_engine 42))) = params single_engine \<and>
   n_simulations (fst (snd (run_simulation counter_rng single_engine 42))) =
     n_simulations single_engine \<and>
   map_sum id api_calls
     (fst (run_simulation counter_rng (fst (snd (run_simulation counter_rng single_engine 42)))
        68)) = Inr [100077] \<and>
   fst (run_simulation counter_rng single_engine 42) \<noteq>
   fst (run_simulation counter_rng (fst (snd (run_simulation counter_rng single_engine 42))) 68)"
proof -
  have s: "fst (run_simulation counter_rng
                 (fst (snd (run_simulation counter_rng single_engine 42))) 68) =
           fst (run_simulation counter_rng single_engine 68)"
    by (simp add: run_simulation_table
        run_table_cong [OF run_simulation_keeps [of counter_rng single_engine 42]])
  have "fst (run_simulation counter_rng single_engine 42) \<noteq>
        fst (run_simulation counter_rng single_engine 68)"
    using first_run_from_42 second_run_from_68 by auto
  moreover have "np_random_seed counter_rng 42 0 = 42"
    by (simp add: np_random_seed_def counter_rng_def)
  ultimately show ?thesis
    using first_run_from_42 first_run_leaves_68 second_run_from_68
    by (simp add: s run_simulation_keeps)
qed

text \<open>
  Claim C2, amended.  A run takes no seed: the module seeds the global generator once, when
  it is imported.  The table of a run is determined by the parameters, the trial count and
  the state of the global generator when the run starts, and by nothing else of the engine
  (a table stored by an earlier run, say).  So two runs with equal parameters and equal
  trial count, on ranges that the samplers accept, both return, with the same table, when
  they start from the same generator state, and they leave the generator in the same
  state; in particular when each is the first run after the generator was seeded with the
  same seed, as in two fresh processes.  Each run stores its table in its engine.
\<close>

theorem run_determined_by_entry_state:
  assumes p: "params self1 = params self2"
    and n: "n_simulations self1 = n_simulations self2"
    and ok: "sampling_ok (params self1)"
  shows "\<exists>t. fst (run_simulation R self1 g) = Inr t \<and>
      fst (run_simulation R self2 g) = Inr t \<and>
      snd (snd (run_simulation R self1 g)) = snd (snd (run_simulation R self2 g)) \<and>
      results (fst (snd (run_simulation R self1 g))) = Some t \<and>
      results (fst (snd (run_simulation R self2 g))) = Some t \<and>
      fst (run_simulation R self1 (np_random_seed R s g1)) =
      fst (run_simulation R self2 (np_random_seed R s g2))"
proof -
  have c: "run_table R self1 = run_table R self2"
    using p n by (rule run_table_cong)
  obtain t where run: "fst (run_simulation R self1 g) = Inr t"
    using run_simulation_ok_iff [of R self1 g] ok by blast
  have run2: "fst (run_simulation R self2 g) = Inr t"
    using run by (simp add: run_simulation_table c)
  have st: "snd (snd (run_simulation R self1 g)) = snd (snd (run_simulation R self2 g))"
    by (simp add: run_simulation_def c split: prod.splits sum.splits)
  have "fst (run_simulation R self1 (np_random_seed R s g1)) =
      fst (run_simulation R self2 (np_random_seed R s g2))"
    by (simp add: run_simulation_table c np_random_seed_def)
  then show ?thesis
    using run run2 st run_simulation_stores [OF run] run_simulation_stores [OF run2]
    by simp
qed

theorem run_determined_by_entry_state_witness:
  "params single_engine = params stale_engine \<and>
   n_simulations single_engine = n_simulations stale_engine \<and>
   sampling_ok (params single_engine) \<and>
   results stale_engine = Some demo_table \<and>
   map_sum id api_calls (fst (run_simulation counter_rng single_engine 42)) = Inr [100051] \<and>
   map_sum id api_calls (fst (run_simulation counter_rng stale_engine 42)) = Inr [100051] \<and>
   snd (snd (run_simulation counter_rng stale_engine 42)) = 68 \<and>
   map_sum id api_calls
     (fst (run_simulation counter_rng stale_engine (np_random_seed counter_rng 42 7))) =
     Inr [100051]"
proof -
  have p: "params single_engine = params stale_engine"
    and n: "n_simulations single_engine = n_simulations stale_engine"
    by (simp_all add: stale_engine_def)
  from run_determined_by_entry_state [OF p n instance_ok(5), of counter_rng 42 42 7 7]
  obtain t where d:
    "fst (run_simulation counter_rng single_engine 42) = Inr t"
    "fst (run_simulation counter_rng stale_engine 42) = Inr t"
    "snd (snd (run_simulation counter_rng single_engine 42)) =
     snd (snd (run_simulation counter_rng stale_engine 42))"
    "fst (run_simulation counter_rng single_engine (np_random_seed counter_rng 42 7)) =
     fst (run_simulation counter_rng stale_engine (np_random_seed counter_rng 42 7))"
    by blast
  have s: "np_random_seed counter_rng 42 7 = 42"
    by (simp add: np_random_seed_def counter_rng_def)
  show ?thesis
    using p n instance_ok(5) first_run_from_42 first_run_leaves_68 d s
    by (simp add: stale_engine_def)
qed

section \<open>Summaries before a run\<close>

text \<open>
  Claim C9, as stated, fails in the kind of the error: the engine has no
  \<open>EngineStateError\<close>.  On an engine that has not run, both methods raise a \<open>ValueError\<close>.
\<close>

theorem summarizer_error_class_counterexample:
  "results demo_engine = None \<and>
   fst (generate_statistics demo_engine) =
     Inl (Exception ''ValueError'' ''Must run simulation first'') \<and>
   fst (sensitivity_analysis demo_engine) =
     Inl (Exception ''ValueError'' ''Must run simulation first'') \<and>
   error_class (projl (fst (generate_statistics demo_engine))) \<noteq> ''EngineStateError'' \<and>
   error_class (projl (fst (sensitivity_analysis demo_engine))) \<noteq> ''EngineStateError''"
  by (simp add: demo_engine_def init_def generate_statistics_def sensitivity_analysis_def)

text \<open>
  Claim C9, amended.  On an engine that holds no table, \<open>generate_statistics\<close> and
  \<open>sensitivity_analysis\<close> raise a \<open>ValueError\<close> with the message "Must run simulation
  first" at once: no summary is returned and the engine is unchanged.
\<close>

theorem summarizer_requires_run:
  assumes "results self = None"
  shows "generate_statistics self = (Inl (ValueError ''Must run simulation first''), self) \<and>
         sensitivity_analysis self = (Inl (ValueError ''Must run simulation first''), self) \<and>
         error_class (projl (fst (generate_statistics self))) = ''ValueError'' \<and>
         error_class (projl (fst (sensitivity_analysis self))) = ''ValueError''"
  using assms by (simp add: generate_statistics_def sensitivity_analysis_def)

theorem summarizer_requires_run_witness:
  "results demo_engine = None \<and>
   generate_statistics demo_engine =
     (Inl (ValueError ''Must run simulation first''), demo_engine) \<and>
   sensitivity_analysis demo_engine =
     (Inl (ValueError ''Must run simulation first''), demo_engine) \<and>
   error_class (projl (fst (generate_statistics demo_engine))) = ''ValueError'' \<and>
   error_class (projl (fst (sensitivity_analysis demo_engine))) = ''ValueError''"
proof -
  have h: "results demo_engine = None" by (simp add: demo_engine_def init_def)
  show ?thesis using summarizer_requires_run [OF h] h by simp
qed

section \<open>Non-finite trial values\<close>





end
